theory Spec2Isabelle
  imports Complex_Main "HOL-Library.AList" "HOL-Library.Sublist"
begin

section \<open>The HTTP trigger for Alma Analytics, from function\_app.py\<close>

text \<open>
  The module is one handler, \<open>httpalmaanalytics\<close>, and five helpers it calls in order:
  \<open>set_payload\<close>, \<open>make_api_call\<close>, \<open>get_soup\<close>, \<open>get_columns\<close> and \<open>get_rows\<close>.
  Each helper returns either a value or an \<open>HttpResponse\<close>, and the handler returns the
  response as soon as one appears. The embedding keeps that shape. What the module
  imports (the configuration store, \<open>requests\<close>, \<open>BeautifulSoup\<close>, \<open>json.dumps\<close>,
  \<open>str\<close>) is not part of the repository: the store, the HTTP client, the parser and the
  two printers are parameters (the record \<open>env\<close>), and the few library functions whose
  behaviour the claims turn on (\<open>urllib.parse.urlencode\<close>, the queries on a parsed
  document, Python truthiness) are written out after the libraries.
\<close>

subsection \<open>Values decoded from the request body\<close>

text \<open>
  \<open>req.get_json()\<close> is \<open>json.loads\<close> on the body, so it returns any JSON value, not only
  an object. A Python \<open>str\<close> is modelled by its UTF-8 bytes, a \<open>dict\<close> by an association
  list read with \<open>map_of\<close>. A float is kept as the rational it denotes, or one of the
  three special values that \<open>json.loads\<close> also accepts.
\<close>

datatype pyfloat = Finite rat | PosInf | NegInf | NaN

datatype json =
    JNull
  | JBool bool
  | JInt int
  | JFloat pyfloat
  | JStr string
  | JArr "json list"
  | JObj "(string \<times> json) list"

text \<open>Python truthiness, as \<open>not x\<close> and \<open>if x:\<close> test it.\<close>

fun truthy :: "json \<Rightarrow> bool" where
  "truthy JNull = False"
| "truthy (JBool b) = b"
| "truthy (JInt n) = (n \<noteq> 0)"
| "truthy (JFloat (Finite q)) = (q \<noteq> 0)"
| "truthy (JFloat _) = True"
| "truthy (JStr s) = (s \<noteq> [])"
| "truthy (JArr xs) = (xs \<noteq> [])"
| "truthy (JObj kvs) = (kvs \<noteq> [])"

text \<open>\<open>d.get(k)\<close>: the value, or \<open>None\<close> when the key is absent.\<close>

definition dict_get :: "(string \<times> json) list \<Rightarrow> string \<Rightarrow> json" where
  "dict_get d k = (case map_of d k of None \<Rightarrow> JNull | Some v \<Rightarrow> v)"

text \<open>\<open>k in d\<close>.\<close>

definition dict_contains :: "(string \<times> json) list \<Rightarrow> string \<Rightarrow> bool" where
  "dict_contains d k = (map_of d k \<noteq> None)"

datatype py_exception = AttributeError | KeyError string

subsection \<open>Requests, responses and the records of the configuration store\<close>

text \<open>
  \<open>get_json\<close> is \<open>None\<close> when the body is not JSON, where \<open>req.get_json()\<close> raises
  \<open>ValueError\<close>.
\<close>

record http_request =
  get_json :: "json option"

record http_response =
  body :: string
  status_code :: nat
  mimetype :: string

text \<open>\<open>func.HttpResponse(body, status_code=n)\<close>; the mimetype defaults to text/plain.\<close>

definition HttpResponse :: "string \<Rightarrow> nat \<Rightarrow> http_response" where
  "HttpResponse b n = \<lparr>body = b, status_code = n, mimetype = ''text/plain''\<rparr>"

text \<open>The fields of the store's records that the module reads.\<close>

record area =
  area_id :: int

record iz =
  iz_id :: int
  code :: string

record analysis =
  analysis_id :: int
  name :: string

record iz_analysis =
  path :: string

record api_key =
  apikey :: string

text \<open>What \<open>requests.get\<close> returns when it does not raise.\<close>

record response =
  http_status :: nat
  content :: string

subsection \<open>Parsed documents\<close>

text \<open>
  A parsed document is a tree of tags and strings. A tag has its namespace prefix
  (\<open>tag.prefix\<close>, \<open>None\<close> when it has none), its name without the prefix
  (\<open>tag.name\<close>: for the element \<open>xsd:element\<close> the prefix is \<open>xsd\<close> and the
  name is \<open>element\<close>), its attribute dictionary, and its contents in document order.
\<close>

datatype node =
    Tag "string option" string "(string \<times> string) list" "node list"
  | NavigableString string

fun is_tag :: "node \<Rightarrow> bool" where
  "is_tag (Tag p n a cs) = True"
| "is_tag (NavigableString s) = False"

fun tag_prefix :: "node \<Rightarrow> string option" where
  "tag_prefix (Tag p n a cs) = p"
| "tag_prefix (NavigableString s) = None"

fun tag_name :: "node \<Rightarrow> string" where
  "tag_name (Tag p n a cs) = n"
| "tag_name (NavigableString s) = []"

fun attrs :: "node \<Rightarrow> (string \<times> string) list" where
  "attrs (Tag p n a cs) = a"
| "attrs (NavigableString s) = []"

text \<open>Every node below a node, in document order.\<close>

fun descendants :: "node \<Rightarrow> node list" where
  "descendants (Tag p n a cs) = concat (map (\<lambda>c. c # descendants c) cs)"
| "descendants (NavigableString s) = []"

text \<open>\<open>tag.text\<close>: the strings below the tag, concatenated.\<close>

fun get_text :: "node \<Rightarrow> string" where
  "get_text (Tag p n a cs) = concat (map get_text cs)"
| "get_text (NavigableString s) = s"

text \<open>
  The tags a search for a name selects: those whose name is the searched name, and
  those whose prefix, a colon and name make up the searched name. So \<open>Row\<close> selects
  a tag named \<open>Row\<close> whatever its prefix, and \<open>xsd:element\<close> selects a tag named
  \<open>element\<close> with the prefix \<open>xsd\<close>.
\<close>

definition matches_name :: "string \<Rightarrow> node \<Rightarrow> bool" where
  "matches_name n x =
     (is_tag x \<and> (tag_name x = n
        \<or> (case tag_prefix x of Some p \<Rightarrow> p @ '':'' @ tag_name x = n | None \<Rightarrow> False)))"

text \<open>\<open>tag.find_all(name)\<close>: the tags below the tag that the name selects, in document order.\<close>

definition find_all :: "string \<Rightarrow> node \<Rightarrow> node list" where
  "find_all n t = filter (matches_name n) (descendants t)"

text \<open>\<open>tag.find(name)\<close>: the first of them, or \<open>None\<close>.\<close>

definition find_first :: "string \<Rightarrow> node \<Rightarrow> node option" where
  "find_first n t = (case find_all n t of [] \<Rightarrow> None | x # xs \<Rightarrow> Some x)"

text \<open>\<open>tag.findChildren()\<close> is \<open>find_all()\<close> with no name: every tag below the tag.\<close>

definition findChildren :: "node \<Rightarrow> node list" where
  "findChildren t = filter is_tag (descendants t)"

text \<open>\<open>tag[key]\<close> raises \<open>KeyError\<close> when the attribute is absent.\<close>

definition getitem :: "node \<Rightarrow> string \<Rightarrow> py_exception + string" where
  "getitem t k = (case map_of (attrs t) k of None \<Rightarrow> Inl (KeyError k) | Some v \<Rightarrow> Inr v)"

text \<open>
  The truth value of a tag. bs4 defines \<open>Tag.__bool__\<close> to return \<open>True\<close> whatever
  the contents (``a tag is non-None even if it has no contents''), and
  \<open>BeautifulSoup\<close> is a subclass of \<open>Tag\<close> that does not override it.
\<close>

definition tag_bool :: "node \<Rightarrow> bool" where
  "tag_bool t = True"

subsection \<open>urllib.parse.urlencode\<close>

text \<open>
  \<open>quote\<close> keeps the bytes of \<open>_ALWAYS_SAFE\<close> (letters, digits and \<open>_.-~\<close>) and the
  ASCII bytes of \<open>safe\<close>, and writes every other byte as \<open>%XX\<close> in upper-case hex.
  \<open>quote_plus\<close> also turns each space into \<open>+\<close>. \<open>urlencode\<close> of a dictionary of
  strings joins \<open>quote_plus(k) + '=' + quote_plus(v)\<close> with \<open>&\<close>.
\<close>

definition always_safe :: "char \<Rightarrow> bool" where
  "always_safe c = (c \<in> set (''ABCDEFGHIJKLMNOPQRSTUVWXYZ'' @ ''abcdefghijklmnopqrstuvwxyz''
                               @ ''0123456789'' @ ''_.-~''))"

definition hex_digit :: "nat \<Rightarrow> char" where
  "hex_digit n = ''0123456789ABCDEF'' ! (n mod 16)"

definition quoter :: "string \<Rightarrow> char \<Rightarrow> string" where
  "quoter safe c =
     (if always_safe c \<or> (c \<in> set safe \<and> (of_char c :: nat) < 128) then [c]
      else [CHR ''%'', hex_digit ((of_char c :: nat) div 16), hex_digit ((of_char c :: nat) mod 16)])"

definition quote :: "string \<Rightarrow> string \<Rightarrow> string" where
  "quote s safe = concat (map (quoter safe) s)"

definition quote_plus :: "string \<Rightarrow> string \<Rightarrow> string" where
  "quote_plus s safe =
     (if CHR '' '' \<notin> set s then quote s safe
      else map (\<lambda>c. if c = CHR '' '' then CHR ''+'' else c) (quote s (safe @ '' '')))"

fun join_amp :: "string list \<Rightarrow> string" where
  "join_amp [] = []"
| "join_amp [x] = x"
| "join_amp (x # y # ys) = x @ ''&'' @ join_amp (y # ys)"

definition urlencode :: "(string \<times> string) list \<Rightarrow> string \<Rightarrow> string" where
  "urlencode query safe =
     join_amp (map (\<lambda>(k, v). quote_plus k safe @ ''='' @ quote_plus v safe) query)"

subsection \<open>Calls, outcomes and the collaborators\<close>

text \<open>
  The calls the module makes on what lies outside it, in the order it makes them:
  \<open>logging.error\<close> with its format string and arguments, the five lookups of the
  configuration store with what they returned, \<open>requests.get\<close> with its URL, query
  string and timeout, and the queries \<open>find\<close> and \<open>find_all\<close> on the document object \<open>soup\<close>.
\<close>

datatype call =
    LogError string "json list"
  | AreaByName string "area option"
  | IzByCode json "iz option"
  | AnalysisByName json "analysis option"
  | IzAnalysisByIzAndAnalysis iz analysis "iz_analysis option"
  | ApiKeyByAreaAndIz int int bool "api_key option"
  | RequestsGet string string nat
  | SoupFind string
  | SoupFindAll string

text \<open>
  A helper raises an exception nobody catches, returns an \<open>HttpResponse\<close> (which the
  handler passes on), or returns its value.
\<close>

datatype 'a outcome = Raised py_exception | Responded http_response | Value 'a

text \<open>
  The collaborators. \<open>requests_get\<close> gives \<open>Inl\<close> the text of the
  \<open>RequestException\<close> when the call raises one; \<open>http_error_text\<close> is the text of the
  \<open>HTTPError\<close> that \<open>raise_for_status\<close> builds; \<open>py_str\<close> is \<open>str\<close> on a decoded
  value that is not itself a string.
\<close>

record env =
  get_area_by_name :: "string \<Rightarrow> area option"
  get_iz_by_code :: "json \<Rightarrow> iz option"
  get_analysis_by_name :: "json \<Rightarrow> analysis option"
  get_iz_analysis_by_iz_and_analysis :: "iz \<Rightarrow> analysis \<Rightarrow> iz_analysis option"
  get_api_key_by_area_and_iz :: "int \<Rightarrow> int \<Rightarrow> bool \<Rightarrow> api_key option"
  requests_get :: "string \<Rightarrow> string \<Rightarrow> nat \<Rightarrow> string + response"
  http_error_text :: "response \<Rightarrow> string"
  BeautifulSoup :: "string \<Rightarrow> node"
  json_dumps :: "json \<Rightarrow> string"
  py_str :: "json \<Rightarrow> string"

text \<open>The value of \<open>{resume}\<close> in an f-string: a string as it is, anything else through \<open>str\<close>.\<close>

definition format_value :: "env \<Rightarrow> json \<Rightarrow> string" where
  "format_value e v = (case v of JStr s \<Rightarrow> s | _ \<Rightarrow> py_str e v)"

subsection \<open>set\_payload\<close>

text \<open>
  Lines 122 to 137: the query string from the resolved path and key and the value of
  \<open>resume\<close>, which is \<open>None\<close> when the body has no such key.
\<close>

definition build_payload :: "env \<Rightarrow> iz_analysis \<Rightarrow> api_key \<Rightarrow> json \<Rightarrow> string" where
  "build_payload e iz_an key resume =
     (let payload = urlencode [(''path'', path iz_an), (''apikey'', apikey key),
                               (''limit'', ''1000''), (''col_names'', ''true'')] '':%''
      in if truthy resume then payload @ ''&token='' @ format_value e resume else payload)"

text \<open>
  Lines 87 to 137, for a body that is a dictionary whose \<open>iz\<close> and \<open>analysis\<close> are
  truthy: the five lookups, each ending the request with 404 when it returns nothing.
\<close>

definition resolve :: "env \<Rightarrow> (string \<times> json) list \<Rightarrow> call list \<times> string outcome" where
  "resolve e req_body =
     (let area = get_area_by_name e ''analytics'';
          t1 = [AreaByName ''analytics'' area]
      in case area of
        None \<Rightarrow> (t1 @ [LogError ''Area %s not found'' [dict_get req_body ''area'']],
                  Responded (HttpResponse ''Area not found'' 404))
      | Some area \<Rightarrow>
     (let iz = get_iz_by_code e (dict_get req_body ''iz'');
          t2 = t1 @ [IzByCode (dict_get req_body ''iz'') iz]
      in case iz of
        None \<Rightarrow> (t2 @ [LogError ''IZ %s not found'' [dict_get req_body ''iz'']],
                  Responded (HttpResponse ''IZ not found'' 404))
      | Some iz \<Rightarrow>
     (let analysis = get_analysis_by_name e (dict_get req_body ''analysis'');
          t3 = t2 @ [AnalysisByName (dict_get req_body ''analysis'') analysis]
      in case analysis of
        None \<Rightarrow> (t3 @ [LogError ''Analytics Analysis %s not found''
                            [dict_get req_body ''analysis'']],
                  Responded (HttpResponse ''Analysis not found'' 404))
      | Some analysis \<Rightarrow>
     (let iz_an = get_iz_analysis_by_iz_and_analysis e iz analysis;
          t4 = t3 @ [IzAnalysisByIzAndAnalysis iz analysis iz_an]
      in case iz_an of
        None \<Rightarrow> (t4 @ [LogError ''Analytics Analysis %s for IZ %s not found''
                            [JStr (name analysis), JStr (code iz)]],
                  Responded (HttpResponse ''Report path not found'' 404))
      | Some iz_an \<Rightarrow>
     (let key = get_api_key_by_area_and_iz e (area_id area) (iz_id iz) False;
          t5 = t4 @ [ApiKeyByAreaAndIz (area_id area) (iz_id iz) False key]
      in case key of
        None \<Rightarrow> (t5 @ [LogError ''Read-only Analytics API Key not found for %s''
                            [JStr (code iz)]],
                  Responded (HttpResponse ''API key not found'' 404))
      | Some key \<Rightarrow>
     (let resume = (if dict_contains req_body ''resume'' then dict_get req_body ''resume''
                    else JNull)
      in (t5, Value (build_payload e iz_an key resume))))))))"

text \<open>
  Lines 77 to 85, then \<open>resolve\<close>. Only a dictionary has \<open>.get\<close>: on any other
  decoded value \<open>req_body.get('iz')\<close> raises \<open>AttributeError\<close>, which nothing catches.
\<close>

definition set_payload :: "env \<Rightarrow> http_request \<Rightarrow> call list \<times> string outcome" where
  "set_payload e req =
     (case get_json req of
        None \<Rightarrow> ([LogError ''Invalid JSON in request body'' []],
                  Responded (HttpResponse ''Invalid JSON in request body'' 400))
      | Some (JObj req_body) \<Rightarrow>
          if \<not> truthy (dict_get req_body ''iz'') \<or> \<not> truthy (dict_get req_body ''analysis'')
          then ([LogError ''Missing required parameters in POST request body'' []],
                Responded (HttpResponse ''Pass iz, and analysis in the request body'' 400))
          else resolve e req_body
      | Some _ \<Rightarrow> ([], Raised AttributeError))"

subsection \<open>make\_api\_call\<close>

definition url :: string where
  "url = ''https://api-na.hosted.exlibrisgroup.com/almaws/v1/analytics/reports''"

text \<open>\<open>raise_for_status\<close> raises for a status from 400 to 599.\<close>

definition raise_for_status :: "env \<Rightarrow> response \<Rightarrow> string option" where
  "raise_for_status e r =
     (if 400 \<le> http_status r \<and> http_status r < 600 then Some (http_error_text e r) else None)"

definition make_api_call :: "env \<Rightarrow> string \<Rightarrow> call list \<times> response outcome" where
  "make_api_call e payload =
     (case requests_get e url payload 600 of
        Inl err \<Rightarrow> ([RequestsGet url payload 600],
                     Responded (HttpResponse (''API call failed: '' @ err) 500))
      | Inr response \<Rightarrow>
          (case raise_for_status e response of
             Some err \<Rightarrow> ([RequestsGet url payload 600],
                          Responded (HttpResponse (''API call failed: '' @ err) 500))
           | None \<Rightarrow> ([RequestsGet url payload 600], Value response)))"

subsection \<open>get\_soup\<close>

definition get_soup :: "env \<Rightarrow> response \<Rightarrow> call list \<times> node outcome" where
  "get_soup e response =
     (let soup = BeautifulSoup e (content response)
      in if \<not> tag_bool soup
         then ([LogError ''Empty or invalid XML response'' []],
               Responded (HttpResponse ''Empty or invalid XML response'' 404))
         else case find_first ''error'' soup of
           Some err \<Rightarrow>
             ([SoupFind ''error'', SoupFind ''error'',
               LogError ''Error: %s'' [JStr (get_text err)], SoupFind ''error''],
              Responded (HttpResponse (''Error: '' @ get_text err) 500))
         | None \<Rightarrow> ([SoupFind ''error''], Value soup))"

subsection \<open>get\_columns\<close>

text \<open>
  The loop of lines 193 to 196 over the declarations that are left, with the dictionary
  built so far. In \<open>columns[column['name']] = column['saw-sql:columnHeading']\<close> Python
  evaluates the right-hand side first. An assignment to a key the dictionary has keeps
  the key's place (\<open>AList.update\<close>).
\<close>

fun columns_loop ::
  "node list \<Rightarrow> (string \<times> string) list \<Rightarrow> py_exception + (string \<times> string) list" where
  "columns_loop [] columns = Inr columns"
| "columns_loop (column # rest) columns =
     (case getitem column ''saw-sql:columnHeading'' of
        Inl ex \<Rightarrow> Inl ex
      | Inr heading \<Rightarrow>
     (case getitem column ''name'' of
        Inl ex \<Rightarrow> Inl ex
      | Inr nm \<Rightarrow>
          columns_loop rest
            (if sublist ''CASE  WHEN Provenance Code'' heading
             then AList.update nm ''Provenance Code'' (AList.update nm heading columns)
             else AList.update nm heading columns)))"

definition get_columns :: "node \<Rightarrow> call list \<times> (string \<times> string) list outcome" where
  "get_columns soup =
     (let columnlist = find_all ''xsd:element'' soup
      in if columnlist = []
         then ([SoupFindAll ''xsd:element'', LogError ''No columns found'' []],
               Responded (HttpResponse ''No columns found'' 404))
         else case columns_loop columnlist [] of
           Inl ex \<Rightarrow> ([SoupFindAll ''xsd:element''], Raised ex)
         | Inr columns \<Rightarrow> ([SoupFindAll ''xsd:element''], Value columns))"

subsection \<open>get\_rows\<close>

text \<open>The inner loop of lines 221 to 226 over the children that are left.\<close>

fun kids_loop ::
  "(string \<times> string) list \<Rightarrow> node list \<Rightarrow> (string \<times> string) list \<Rightarrow> (string \<times> string) list" where
  "kids_loop columns [] values = values"
| "kids_loop columns (kid # kids) values =
     kids_loop columns kids
       (if tag_name kid \<noteq> ''Column0''
        then (case map_of columns (tag_name kid) of
                Some heading \<Rightarrow> AList.update heading (get_text kid) values
              | None \<Rightarrow> AList.update (tag_name kid) (get_text kid) values)
        else values)"

text \<open>The body of the outer loop, lines 218 to 228: the dictionary of one row.\<close>

definition row_values :: "(string \<times> string) list \<Rightarrow> node \<Rightarrow> (string \<times> string) list" where
  "row_values columns row = kids_loop columns (findChildren row) []"

definition get_rows ::
  "node \<Rightarrow> (string \<times> string) list \<Rightarrow> call list \<times> (string \<times> string) list list outcome" where
  "get_rows soup columns =
     (let rowlist = find_all ''Row'' soup
      in if rowlist = []
         then ([SoupFindAll ''Row'', LogError ''No rows found'' []],
               Responded (HttpResponse ''No rows found'' 404))
         else ([SoupFindAll ''Row''], Value (map (row_values columns) rowlist)))"

subsection \<open>httpalmaanalytics\<close>

text \<open>The dictionary that the handler hands to \<open>json.dumps\<close>.\<close>

definition success_json :: "node option \<Rightarrow> (string \<times> string) list list \<Rightarrow> json" where
  "success_json resume_data rows =
     JObj [(''status'', JStr ''success''),
           (''data'', JObj [(''resume'', (case resume_data of
                                            Some t \<Rightarrow> JStr (get_text t)
                                          | None \<Rightarrow> JNull)),
                            (''rows'', JArr (map (\<lambda>r. JObj (map (\<lambda>(k, v). (k, JStr v)) r))
                                              rows))])]"

text \<open>
  The handler: the calls it made, and the exception that escaped it (\<open>Inl\<close>) or the
  response it returned (\<open>Inr\<close>).
\<close>

definition httpalmaanalytics ::
  "env \<Rightarrow> http_request \<Rightarrow> call list \<times> (py_exception + http_response)" where
  "httpalmaanalytics e req =
     (case set_payload e req of
        (t1, Raised ex) \<Rightarrow> (t1, Inl ex)
      | (t1, Responded r) \<Rightarrow> (t1, Inr r)
      | (t1, Value payload) \<Rightarrow>
     (case make_api_call e payload of
        (t2, Raised ex) \<Rightarrow> (t1 @ t2, Inl ex)
      | (t2, Responded r) \<Rightarrow> (t1 @ t2, Inr r)
      | (t2, Value response) \<Rightarrow>
     (case get_soup e response of
        (t3, Raised ex) \<Rightarrow> (t1 @ t2 @ t3, Inl ex)
      | (t3, Responded r) \<Rightarrow> (t1 @ t2 @ t3, Inr r)
      | (t3, Value soup) \<Rightarrow>
     (case get_columns soup of
        (t4, Raised ex) \<Rightarrow> (t1 @ t2 @ t3 @ t4, Inl ex)
      | (t4, Responded r) \<Rightarrow> (t1 @ t2 @ t3 @ t4, Inr r)
      | (t4, Value columns) \<Rightarrow>
     (case get_rows soup columns of
        (t5, Raised ex) \<Rightarrow> (t1 @ t2 @ t3 @ t4 @ t5, Inl ex)
      | (t5, Responded r) \<Rightarrow> (t1 @ t2 @ t3 @ t4 @ t5, Inr r)
      | (t5, Value rows) \<Rightarrow>
          (t1 @ t2 @ t3 @ t4 @ t5 @ [SoupFind ''ResumptionToken''],
           Inr \<lparr>body = json_dumps e (success_json (find_first ''ResumptionToken'' soup) rows),
                status_code = 200, mimetype = ''application/json''\<rparr>))))))"

section \<open>Vocabulary of the properties\<close>

text \<open>A lookup of the configuration store, and one that returned no record.\<close>

fun is_lookup :: "call \<Rightarrow> bool" where
  "is_lookup (AreaByName n r) = True"
| "is_lookup (IzByCode c r) = True"
| "is_lookup (AnalysisByName n r) = True"
| "is_lookup (IzAnalysisByIzAndAnalysis z a r) = True"
| "is_lookup (ApiKeyByAreaAndIz a z w r) = True"
| "is_lookup _ = False"

fun lookup_absent :: "call \<Rightarrow> bool" where
  "lookup_absent (AreaByName n r) = (r = None)"
| "lookup_absent (IzByCode c r) = (r = None)"
| "lookup_absent (AnalysisByName n r) = (r = None)"
| "lookup_absent (IzAnalysisByIzAndAnalysis z a r) = (r = None)"
| "lookup_absent (ApiKeyByAreaAndIz a z w r) = (r = None)"
| "lookup_absent _ = False"

text \<open>The outbound call, and a query on the parsed document.\<close>

fun is_requests_get :: "call \<Rightarrow> bool" where
  "is_requests_get (RequestsGet u p t) = True"
| "is_requests_get _ = False"

fun is_soup_query :: "call \<Rightarrow> bool" where
  "is_soup_query (SoupFind n) = True"
| "is_soup_query (SoupFindAll n) = True"
| "is_soup_query _ = False"

text \<open>
  The header rule of the column map: a heading that contains the generated case
  expression becomes \<open>Provenance Code\<close>, any other heading stays as it is.
\<close>

definition normalised :: "string \<Rightarrow> string" where
  "normalised heading =
     (if sublist ''CASE  WHEN Provenance Code'' heading then ''Provenance Code'' else heading)"

text \<open>
  The header a child of a row resolves to: its entry in the column map, or its own tag
  name when the map has none.
\<close>

definition resolved_header :: "(string \<times> string) list \<Rightarrow> node \<Rightarrow> string" where
  "resolved_header columns kid =
     (case map_of columns (tag_name kid) of Some heading \<Rightarrow> heading | None \<Rightarrow> tag_name kid)"

text \<open>
  The row mapping as the specification words it: the children not named \<open>Column0\<close>,
  in document order, each recording its text under its resolved header.
\<close>

definition row_mapping :: "(string \<times> string) list \<Rightarrow> node \<Rightarrow> (string \<times> string) list" where
  "row_mapping columns row =
     foldl (\<lambda>acc kid. AList.update (resolved_header columns kid) (get_text kid) acc) []
       (filter (\<lambda>kid. tag_name kid \<noteq> ''Column0'') (findChildren row))"

text \<open>
  Reading a query string: the pieces between \<open>&\<close>, each cut at its first \<open>=\<close> into a
  key and a value.
\<close>

fun split_on :: "char \<Rightarrow> string \<Rightarrow> string list" where
  "split_on c [] = [[]]"
| "split_on c (x # xs) =
     (if x = c then [] # split_on c xs
      else (case split_on c xs of [] \<Rightarrow> [[x]] | y # ys \<Rightarrow> (x # y) # ys))"

definition key_value :: "string \<Rightarrow> string \<times> string" where
  "key_value s =
     (takeWhile (\<lambda>c. c \<noteq> CHR ''='') s, drop 1 (dropWhile (\<lambda>c. c \<noteq> CHR ''='') s))"

definition query_pairs :: "string \<Rightarrow> (string \<times> string) list" where
  "query_pairs s = map key_value (split_on CHR ''&'' s)"

text \<open>What \<open>quote_plus\<close> writes for one byte.\<close>

definition plus_quoter :: "string \<Rightarrow> char \<Rightarrow> string" where
  "plus_quoter safe c = (if c = CHR '' '' then ''+'' else quoter safe c)"

text \<open>The inputs of a credential lookup, and the results of the other lookups.\<close>

fun credential_input :: "call \<Rightarrow> (int \<times> int \<times> bool) option" where
  "credential_input (ApiKeyByAreaAndIz a z w r) = Some (a, z, w)"
| "credential_input _ = None"

fun area_result :: "call \<Rightarrow> area option option" where
  "area_result (AreaByName n r) = Some r"
| "area_result _ = None"

fun iz_result :: "call \<Rightarrow> iz option option" where
  "iz_result (IzByCode c r) = Some r"
| "iz_result _ = None"

fun analysis_result :: "call \<Rightarrow> analysis option option" where
  "analysis_result (AnalysisByName n r) = Some r"
| "analysis_result _ = None"

subsection \<open>An example deployment\<close>

text \<open>
  A store with the area \<open>analytics\<close>, the zones \<open>GW\<close> and \<open>AU\<close> and the analysis
  \<open>loans\<close>, a remote API that answers 200, and a parser that yields the given document.
\<close>

definition example_env :: "node \<Rightarrow> env" where
  "example_env doc =
     \<lparr>get_area_by_name = (\<lambda>n. if n = ''analytics'' then Some \<lparr>area_id = 1\<rparr> else None),
      get_iz_by_code =
        (\<lambda>c. if c = JStr ''GW'' then Some \<lparr>iz_id = 10, code = ''GW''\<rparr>
             else if c = JStr ''AU'' then Some \<lparr>iz_id = 20, code = ''AU''\<rparr>
             else None),
      get_analysis_by_name =
        (\<lambda>n. if n = JStr ''loans'' then Some \<lparr>analysis_id = 5, name = ''loans''\<rparr> else None),
      get_iz_analysis_by_iz_and_analysis =
        (\<lambda>z a. Some \<lparr>path = ''/shared/'' @ code z @ '':'' @ name a\<rparr>),
      get_api_key_by_area_and_iz = (\<lambda>a z w. if w then None else Some \<lparr>apikey = ''l8xx''\<rparr>),
      requests_get = (\<lambda>u p t. Inr \<lparr>http_status = 200, content = []\<rparr>),
      http_error_text = (\<lambda>r. ''error''),
      BeautifulSoup = (\<lambda>s. doc),
      json_dumps = (\<lambda>j. ''{}''),
      py_str = (\<lambda>v. ''?'')\<rparr>"

definition example_request :: "string \<Rightarrow> string \<Rightarrow> http_request" where
  "example_request z a = \<lparr>get_json = Some (JObj [(''iz'', JStr z), (''analysis'', JStr a)])\<rparr>"

definition request_with_resume :: "string \<Rightarrow> string \<Rightarrow> json \<Rightarrow> http_request" where
  "request_with_resume z a tok =
     \<lparr>get_json = Some (JObj [(''iz'', JStr z), (''analysis'', JStr a), (''resume'', tok)])\<rparr>"

text \<open>Example documents: a column declaration, a cell, and reports built from them.\<close>

definition column_decl :: "string \<Rightarrow> string \<Rightarrow> node" where
  "column_decl n h = Tag (Some ''xsd'') ''element'' [(''name'', n), (''saw-sql:columnHeading'', h)] []"

definition cell :: "string \<Rightarrow> string \<Rightarrow> node" where
  "cell n s = Tag None n [] [NavigableString s]"

definition report_doc :: node where
  "report_doc = Tag None ''[document]'' []
     [Tag None ''QueryResult'' []
        [cell ''ResumptionToken'' ''abc123'',
         Tag (Some ''xsd'') ''schema'' []
           [column_decl ''Column0'' ''0'',
            column_decl ''Column1'' ''Title'',
            column_decl ''Column2'' ''CASE  WHEN Provenance Code = 1 THEN 2 END'',
            column_decl ''Column3'' ''CASE  WHEN Provenance Code = 3 THEN 4 END''],
         Tag None ''Row'' []
           [cell ''Column0'' ''0'', cell ''Column1'' ''Foo'', cell ''Column2'' ''A'',
            cell ''Column3'' ''B'', cell ''Extra'' ''x'']]]"

definition report_columns :: "(string \<times> string) list" where
  "report_columns = [(''Column0'', ''0''), (''Column1'', ''Title''),
                     (''Column2'', ''Provenance Code''), (''Column3'', ''Provenance Code'')]"

definition duplicate_doc :: node where
  "duplicate_doc = Tag None ''[document]'' []
     [column_decl ''Column1'' ''CASE  WHEN Provenance Code = 1 THEN 2 END'',
      column_decl ''Column1'' ''Title'']"

definition error_doc :: node where
  "error_doc = Tag None ''[document]'' []
     [Tag None ''error'' [] [NavigableString ''Report not found''],
      Tag (Some ''xsd'') ''element'' [] []]"

definition two_errors_doc :: node where
  "two_errors_doc = Tag None ''[document]'' []
     [Tag None ''error'' [] [NavigableString ''first''],
      Tag None ''error'' [] [NavigableString ''second'']]"

definition bare_element_doc :: node where
  "bare_element_doc = Tag None ''[document]'' [] [Tag (Some ''xsd'') ''element'' [] []]"

definition empty_doc :: node where
  "empty_doc = Tag None ''[document]'' [] []"

definition rows_only_doc :: node where
  "rows_only_doc = Tag None ''[document]'' [] [Tag None ''Row'' [] [cell ''Column1'' ''Foo'']]"

definition columns_only_doc :: node where
  "columns_only_doc = Tag None ''[document]'' [] [column_decl ''Column1'' ''Title'']"

section \<open>Properties\<close>

subsection \<open>Which calls each helper makes\<close>

lemma lookup_absent_is_lookup: "lookup_absent c \<Longrightarrow> is_lookup c"
  by (cases c) auto

lemma resolve_calls:
  "c \<in> set (fst (resolve e d)) \<Longrightarrow> \<not> is_requests_get c \<and> \<not> is_soup_query c"
  by (auto simp: resolve_def Let_def split: option.splits)

lemma resolve_absent:
  "c \<in> set (fst (resolve e d)) \<Longrightarrow> lookup_absent c \<Longrightarrow>
   \<exists>r. snd (resolve e d) = Responded r \<and> status_code r = 404"
  by (auto simp: resolve_def Let_def HttpResponse_def split: option.splits)

lemma set_payload_calls:
  "c \<in> set (fst (set_payload e req)) \<Longrightarrow> \<not> is_requests_get c \<and> \<not> is_soup_query c"
  using resolve_calls[of c e]
  by (auto simp: set_payload_def split: option.splits json.splits if_splits)

lemma set_payload_absent:
  "c \<in> set (fst (set_payload e req)) \<Longrightarrow> lookup_absent c \<Longrightarrow>
   \<exists>r. snd (set_payload e req) = Responded r \<and> status_code r = 404"
  using resolve_absent[of c e]
  by (auto simp: set_payload_def split: option.splits json.splits if_splits)

lemma make_api_call_calls:
  "c \<in> set (fst (make_api_call e p)) \<Longrightarrow> \<not> is_lookup c \<and> \<not> is_soup_query c"
  by (auto simp: make_api_call_def split: sum.splits option.splits)

lemma get_soup_calls:
  "c \<in> set (fst (get_soup e r)) \<Longrightarrow> \<not> is_lookup c \<and> \<not> is_requests_get c"
  by (auto simp: get_soup_def Let_def split: option.splits if_splits)

lemma get_columns_calls:
  "c \<in> set (fst (get_columns s)) \<Longrightarrow> \<not> is_lookup c \<and> \<not> is_requests_get c"
  by (auto simp: get_columns_def Let_def split: sum.splits if_splits)

lemma get_rows_calls:
  "c \<in> set (fst (get_rows s cols)) \<Longrightarrow> \<not> is_lookup c \<and> \<not> is_requests_get c"
  by (auto simp: get_rows_def Let_def split: if_splits)

subsection \<open>The handler stops at the first response\<close>

lemma handler_responded:
  "set_payload e req = (t, Responded r) \<Longrightarrow> httpalmaanalytics e req = (t, Inr r)"
  by (simp add: httpalmaanalytics_def)

lemma handler_raised:
  "set_payload e req = (t, Raised ex) \<Longrightarrow> httpalmaanalytics e req = (t, Inl ex)"
  by (simp add: httpalmaanalytics_def)

text \<open>Once the payload is built, no further lookup is made.\<close>

lemma handler_after_payload:
  assumes "set_payload e req = (t1, Value p)"
  shows "\<exists>t'. fst (httpalmaanalytics e req) = t1 @ t' \<and> (\<forall>c\<in>set t'. \<not> is_lookup c)"
proof -
  obtain t2 o2 where m: "make_api_call e p = (t2, o2)" by (cases "make_api_call e p")
  have c2: "\<forall>c\<in>set t2. \<not> is_lookup c" using make_api_call_calls[of _ e p] m by auto
  show ?thesis
  proof (cases o2)
    case (Value r)
    obtain t3 o3 where s: "get_soup e r = (t3, o3)" by (cases "get_soup e r")
    have c3: "\<forall>c\<in>set t3. \<not> is_lookup c" using get_soup_calls[of _ e r] s by auto
    show ?thesis
    proof (cases o3)
      case v3: (Value soup)
      obtain t4 o4 where g: "get_columns soup = (t4, o4)" by (cases "get_columns soup")
      have c4: "\<forall>c\<in>set t4. \<not> is_lookup c" using get_columns_calls[of _ soup] g by auto
      show ?thesis
      proof (cases o4)
        case v4: (Value cols)
        obtain t5 o5 where w: "get_rows soup cols = (t5, o5)" by (cases "get_rows soup cols")
        have c5: "\<forall>c\<in>set t5. \<not> is_lookup c" using get_rows_calls[of _ soup cols] w by auto
        show ?thesis using assms m Value s v3 g v4 w c2 c3 c4 c5
          by (cases o5) (auto simp: httpalmaanalytics_def)
      qed (use assms m Value s v3 g c2 c3 c4 in \<open>auto simp: httpalmaanalytics_def\<close>)
    qed (use assms m Value s c2 c3 in \<open>auto simp: httpalmaanalytics_def\<close>)
  qed (use assms m c2 in \<open>auto simp: httpalmaanalytics_def\<close>)
qed

text \<open>Every lookup of a run is made by \<open>set_payload\<close>.\<close>

lemma handler_lookups:
  assumes "is_lookup c"
  shows "c \<in> set (fst (httpalmaanalytics e req)) \<longleftrightarrow> c \<in> set (fst (set_payload e req))"
proof -
  obtain t1 o1 where sp: "set_payload e req = (t1, o1)" by (cases "set_payload e req")
  show ?thesis
  proof (cases o1)
    case (Value p)
    from handler_after_payload[OF sp[unfolded Value]] assms sp show ?thesis by auto
  next
    case (Raised ex) with sp handler_raised[of e req t1 ex] show ?thesis by simp
  next
    case (Responded r) with sp handler_responded[of e req t1 r] show ?thesis by simp
  qed
qed

subsection \<open>Request validation\<close>

text \<open>
  A body that is a dictionary whose \<open>iz\<close> or \<open>analysis\<close> is missing or falsy is answered
  with 400, and the only call made is the log entry: no lookup, no outbound call.
\<close>

lemma missing_parameters_400:
  assumes "get_json req = Some (JObj d)"
    and "\<not> truthy (dict_get d ''iz'') \<or> \<not> truthy (dict_get d ''analysis'')"
  shows "httpalmaanalytics e req =
           ([LogError ''Missing required parameters in POST request body'' []],
            Inr (HttpResponse ''Pass iz, and analysis in the request body'' 400))"
  using assms by (auto simp add: httpalmaanalytics_def set_payload_def)

text \<open>
  A body that is valid JSON but not a dictionary has no \<open>get\<close>: the handler raises
  before it logs or answers anything.
\<close>

lemma non_dict_body_raises:
  assumes "get_json req = Some v" and "\<forall>d. v \<noteq> JObj d"
  shows "httpalmaanalytics e req = ([], Inl AttributeError)"
  using assms by (cases v) (simp_all add: httpalmaanalytics_def set_payload_def)

text \<open>
  C1: every body that is valid JSON and whose \<open>iz\<close> or \<open>analysis\<close> is missing or falsy
  should be answered with 400. The body \<open>[]\<close> is valid JSON and has neither field, and
  the handler answers nothing: \<open>req_body.get('iz')\<close> raises \<open>AttributeError\<close> on a
  list, and the exception leaves the handler.
\<close>

theorem non_object_body_raises:
  "httpalmaanalytics e \<lparr>get_json = Some (JArr [])\<rparr> = ([], Inl AttributeError)"
  by (simp add: httpalmaanalytics_def set_payload_def)

subsection \<open>The configuration lookups\<close>

text \<open>
  C2: when one of the five lookups of a request returns no record, the handler answers
  404 and makes no outbound call for that request.
\<close>

theorem lookup_absent_404_no_get:
  assumes "\<exists>c\<in>set (fst (httpalmaanalytics e req)). lookup_absent c"
  shows "(\<exists>r. snd (httpalmaanalytics e req) = Inr r \<and> status_code r = 404)
         \<and> (\<forall>c\<in>set (fst (httpalmaanalytics e req)). \<not> is_requests_get c)"
proof -
  from assms obtain c where c: "c \<in> set (fst (httpalmaanalytics e req))" "lookup_absent c"
    by blast
  obtain t1 o1 where sp: "set_payload e req = (t1, o1)" by (cases "set_payload e req")
  have in_t1: "c \<in> set t1"
  proof (cases o1)
    case (Value p)
    from handler_after_payload[OF sp[unfolded Value]] obtain t'
      where "fst (httpalmaanalytics e req) = t1 @ t'" "\<forall>c\<in>set t'. \<not> is_lookup c" by blast
    with c lookup_absent_is_lookup[of c] show ?thesis by auto
  next
    case (Raised ex) with c sp handler_raised[of e req t1 ex] show ?thesis by simp
  next
    case (Responded r) with c sp handler_responded[of e req t1 r] show ?thesis by simp
  qed
  with set_payload_absent[of c e req] c sp obtain r
    where r: "o1 = Responded r" "status_code r = 404" by auto
  with sp handler_responded[of e req t1 r] have h: "httpalmaanalytics e req = (t1, Inr r)"
    by simp
  have "\<forall>c\<in>set t1. \<not> is_requests_get c" using set_payload_calls[of _ e req] sp by auto
  with h r show ?thesis by simp
qed

text \<open>The zone \<open>XX\<close> is not in the example store: the second lookup returns nothing.\<close>

lemma unknown_zone_run:
  "httpalmaanalytics (example_env (NavigableString [])) (example_request ''XX'' ''loans'') =
     ([AreaByName ''analytics'' (Some \<lparr>area_id = 1\<rparr>), IzByCode (JStr ''XX'') None,
       LogError ''IZ %s not found'' [JStr ''XX'']],
      Inr (HttpResponse ''IZ not found'' 404))"
  by (simp add: httpalmaanalytics_def set_payload_def resolve_def example_env_def
      example_request_def dict_get_def)

theorem lookup_absent_404_no_get_witness:
  "(\<exists>c\<in>set (fst (httpalmaanalytics (example_env (NavigableString []))
                    (example_request ''XX'' ''loans''))). lookup_absent c)
   \<and> (\<exists>r. snd (httpalmaanalytics (example_env (NavigableString []))
                 (example_request ''XX'' ''loans'')) = Inr r \<and> status_code r = 404)
   \<and> filter is_requests_get (fst (httpalmaanalytics (example_env (NavigableString []))
                                    (example_request ''XX'' ''loans''))) = []"
proof -
  have h: "\<exists>c\<in>set (fst (httpalmaanalytics (example_env (NavigableString []))
                          (example_request ''XX'' ''loans''))). lookup_absent c"
    by (simp add: unknown_zone_run)
  from lookup_absent_404_no_get[OF h] h show ?thesis by (simp add: filter_empty_conv)
qed

subsection \<open>Runs of the example deployment up to the parsed document\<close>

lemma example_set_payload:
  "set_payload (example_env d) (example_request ''GW'' ''loans'') =
     ([AreaByName ''analytics'' (Some \<lparr>area_id = 1\<rparr>),
       IzByCode (JStr ''GW'') (Some \<lparr>iz_id = 10, code = ''GW''\<rparr>),
       AnalysisByName (JStr ''loans'') (Some \<lparr>analysis_id = 5, name = ''loans''\<rparr>),
       IzAnalysisByIzAndAnalysis \<lparr>iz_id = 10, code = ''GW''\<rparr>
         \<lparr>analysis_id = 5, name = ''loans''\<rparr> (Some \<lparr>path = ''/shared/GW:loans''\<rparr>),
       ApiKeyByAreaAndIz 1 10 False (Some \<lparr>apikey = ''l8xx''\<rparr>)],
      Value ''path=%2Fshared%2FGW:loans&apikey=l8xx&limit=1000&col_names=true'')"
  by (simp add: set_payload_def resolve_def example_env_def example_request_def dict_get_def
      dict_contains_def build_payload_def urlencode_def quote_plus_def quote_def quoter_def
      always_safe_def hex_digit_def)

lemma example_set_payload_AU:
  "set_payload (example_env d) (example_request ''AU'' ''loans'') =
     ([AreaByName ''analytics'' (Some \<lparr>area_id = 1\<rparr>),
       IzByCode (JStr ''AU'') (Some \<lparr>iz_id = 20, code = ''AU''\<rparr>),
       AnalysisByName (JStr ''loans'') (Some \<lparr>analysis_id = 5, name = ''loans''\<rparr>),
       IzAnalysisByIzAndAnalysis \<lparr>iz_id = 20, code = ''AU''\<rparr>
         \<lparr>analysis_id = 5, name = ''loans''\<rparr> (Some \<lparr>path = ''/shared/AU:loans''\<rparr>),
       ApiKeyByAreaAndIz 1 20 False (Some \<lparr>apikey = ''l8xx''\<rparr>)],
      Value ''path=%2Fshared%2FAU:loans&apikey=l8xx&limit=1000&col_names=true'')"
  by (simp add: set_payload_def resolve_def example_env_def example_request_def dict_get_def
      dict_contains_def build_payload_def urlencode_def quote_plus_def quote_def quoter_def
      always_safe_def hex_digit_def)

lemma example_make_api_call:
  "make_api_call (example_env d) p =
     ([RequestsGet url p 600], Value \<lparr>http_status = 200, content = []\<rparr>)"
  by (simp add: make_api_call_def example_env_def raise_for_status_def)

lemma example_soup: "BeautifulSoup (example_env d) s = d"
  by (simp add: example_env_def)

subsection \<open>What each lookup is given\<close>

lemma resolve_lookup_inputs:
  "(ApiKeyByAreaAndIz a z w r \<in> set (fst (resolve e d)) \<longrightarrow>
      (\<exists>n ar c i. AreaByName n (Some ar) \<in> set (fst (resolve e d))
                 \<and> IzByCode c (Some i) \<in> set (fst (resolve e d))
                 \<and> a = area_id ar \<and> z = iz_id i \<and> w = False))
   \<and> (IzAnalysisByIzAndAnalysis i' an r' \<in> set (fst (resolve e d)) \<longrightarrow>
      (\<exists>c n. IzByCode c (Some i') \<in> set (fst (resolve e d))
            \<and> AnalysisByName n (Some an) \<in> set (fst (resolve e d))))"
  by (auto simp: resolve_def Let_def split: option.splits)

lemma set_payload_lookup_inputs:
  "(ApiKeyByAreaAndIz a z w r \<in> set (fst (set_payload e req)) \<longrightarrow>
      (\<exists>n ar c i. AreaByName n (Some ar) \<in> set (fst (set_payload e req))
                 \<and> IzByCode c (Some i) \<in> set (fst (set_payload e req))
                 \<and> a = area_id ar \<and> z = iz_id i \<and> w = False))
   \<and> (IzAnalysisByIzAndAnalysis i' an r' \<in> set (fst (set_payload e req)) \<longrightarrow>
      (\<exists>c n. IzByCode c (Some i') \<in> set (fst (set_payload e req))
            \<and> AnalysisByName n (Some an) \<in> set (fst (set_payload e req))))"
proof (cases "\<exists>d. get_json req = Some (JObj d) \<and> truthy (dict_get d ''iz'')
                   \<and> truthy (dict_get d ''analysis'')")
  case True
  then obtain d where "set_payload e req = resolve e d" by (auto simp: set_payload_def)
  then show ?thesis using resolve_lookup_inputs[of a z w r e d i' an r'] by simp
next
  case False
  then have "\<forall>c\<in>set (fst (set_payload e req)). \<not> is_lookup c"
    by (auto simp: set_payload_def split: option.splits json.splits)
  then show ?thesis by fastforce
qed

text \<open>
  C8, as the code has it: the credential lookup is given the id of the area (the result
  of the first lookup), the id of the zone (the result of the second lookup) and the
  flag \<open>False\<close>; the path lookup is given the zone and the analysis (the results of the
  second and third lookups).
\<close>

theorem lookup_inputs:
  "(ApiKeyByAreaAndIz a z w r \<in> set (fst (httpalmaanalytics e req)) \<longrightarrow>
      (\<exists>n ar c i. AreaByName n (Some ar) \<in> set (fst (httpalmaanalytics e req))
                 \<and> IzByCode c (Some i) \<in> set (fst (httpalmaanalytics e req))
                 \<and> a = area_id ar \<and> z = iz_id i \<and> w = False))
   \<and> (IzAnalysisByIzAndAnalysis i' an r' \<in> set (fst (httpalmaanalytics e req)) \<longrightarrow>
      (\<exists>c n. IzByCode c (Some i') \<in> set (fst (httpalmaanalytics e req))
            \<and> AnalysisByName n (Some an) \<in> set (fst (httpalmaanalytics e req))))"
  using set_payload_lookup_inputs[of a z w r e req i' an r']
  by (simp add: handler_lookups)

text \<open>A run of the example deployment for the zone \<open>GW\<close>, on a document with an error.\<close>

lemma example_run_GW:
  "fst (httpalmaanalytics (example_env error_doc) (example_request ''GW'' ''loans'')) =
     [AreaByName ''analytics'' (Some \<lparr>area_id = 1\<rparr>),
      IzByCode (JStr ''GW'') (Some \<lparr>iz_id = 10, code = ''GW''\<rparr>),
      AnalysisByName (JStr ''loans'') (Some \<lparr>analysis_id = 5, name = ''loans''\<rparr>),
      IzAnalysisByIzAndAnalysis \<lparr>iz_id = 10, code = ''GW''\<rparr>
        \<lparr>analysis_id = 5, name = ''loans''\<rparr> (Some \<lparr>path = ''/shared/GW:loans''\<rparr>),
      ApiKeyByAreaAndIz 1 10 False (Some \<lparr>apikey = ''l8xx''\<rparr>),
      RequestsGet url ''path=%2Fshared%2FGW:loans&apikey=l8xx&limit=1000&col_names=true'' 600,
      SoupFind ''error'', SoupFind ''error'',
      LogError ''Error: %s'' [JStr ''Report not found''], SoupFind ''error'']"
  by (simp add: httpalmaanalytics_def example_set_payload example_make_api_call get_soup_def
      example_soup tag_bool_def find_first_def find_all_def matches_name_def error_doc_def)

lemma example_run_AU:
  "fst (httpalmaanalytics (example_env error_doc) (example_request ''AU'' ''loans'')) =
     [AreaByName ''analytics'' (Some \<lparr>area_id = 1\<rparr>),
      IzByCode (JStr ''AU'') (Some \<lparr>iz_id = 20, code = ''AU''\<rparr>),
      AnalysisByName (JStr ''loans'') (Some \<lparr>analysis_id = 5, name = ''loans''\<rparr>),
      IzAnalysisByIzAndAnalysis \<lparr>iz_id = 20, code = ''AU''\<rparr>
        \<lparr>analysis_id = 5, name = ''loans''\<rparr> (Some \<lparr>path = ''/shared/AU:loans''\<rparr>),
      ApiKeyByAreaAndIz 1 20 False (Some \<lparr>apikey = ''l8xx''\<rparr>),
      RequestsGet url ''path=%2Fshared%2FAU:loans&apikey=l8xx&limit=1000&col_names=true'' 600,
      SoupFind ''error'', SoupFind ''error'',
      LogError ''Error: %s'' [JStr ''Report not found''], SoupFind ''error'']"
  by (simp add: httpalmaanalytics_def example_set_payload_AU example_make_api_call get_soup_def
      example_soup tag_bool_def find_first_def find_all_def matches_name_def error_doc_def)

theorem lookup_inputs_witness:
  "ApiKeyByAreaAndIz 1 10 False (Some \<lparr>apikey = ''l8xx''\<rparr>)
     \<in> set (fst (httpalmaanalytics (example_env error_doc) (example_request ''GW'' ''loans'')))
   \<and> (\<exists>n ar c i.
         AreaByName n (Some ar)
           \<in> set (fst (httpalmaanalytics (example_env error_doc) (example_request ''GW'' ''loans'')))
       \<and> IzByCode c (Some i)
           \<in> set (fst (httpalmaanalytics (example_env error_doc) (example_request ''GW'' ''loans'')))
       \<and> 1 = area_id ar \<and> 10 = iz_id i)
   \<and> IzAnalysisByIzAndAnalysis \<lparr>iz_id = 10, code = ''GW''\<rparr> \<lparr>analysis_id = 5, name = ''loans''\<rparr>
        (Some \<lparr>path = ''/shared/GW:loans''\<rparr>)
     \<in> set (fst (httpalmaanalytics (example_env error_doc) (example_request ''GW'' ''loans'')))
   \<and> (\<exists>c n.
         IzByCode c (Some \<lparr>iz_id = 10, code = ''GW''\<rparr>)
           \<in> set (fst (httpalmaanalytics (example_env error_doc) (example_request ''GW'' ''loans'')))
       \<and> AnalysisByName n (Some \<lparr>analysis_id = 5, name = ''loans''\<rparr>)
           \<in> set (fst (httpalmaanalytics (example_env error_doc) (example_request ''GW'' ''loans''))))"
proof -
  let ?tr = "fst (httpalmaanalytics (example_env error_doc) (example_request ''GW'' ''loans''))"
  have k: "ApiKeyByAreaAndIz 1 10 False (Some \<lparr>apikey = ''l8xx''\<rparr>) \<in> set ?tr"
    by (simp add: example_run_GW)
  have p: "IzAnalysisByIzAndAnalysis \<lparr>iz_id = 10, code = ''GW''\<rparr>
             \<lparr>analysis_id = 5, name = ''loans''\<rparr> (Some \<lparr>path = ''/shared/GW:loans''\<rparr>) \<in> set ?tr"
    by (simp add: example_run_GW)
  note th = lookup_inputs[of 1 10 False "Some \<lparr>apikey = ''l8xx''\<rparr>" "example_env error_doc"
      "example_request ''GW'' ''loans''" "\<lparr>iz_id = 10, code = ''GW''\<rparr>"
      "\<lparr>analysis_id = 5, name = ''loans''\<rparr>" "Some \<lparr>path = ''/shared/GW:loans''\<rparr>"]
  from th k have a: "\<exists>n ar c i. AreaByName n (Some ar) \<in> set ?tr \<and> IzByCode c (Some i) \<in> set ?tr
                       \<and> 1 = area_id ar \<and> 10 = iz_id i" by blast
  from th p have b: "\<exists>c n. IzByCode c (Some \<lparr>iz_id = 10, code = ''GW''\<rparr>) \<in> set ?tr
                       \<and> AnalysisByName n (Some \<lparr>analysis_id = 5, name = ''loans''\<rparr>) \<in> set ?tr"
    by blast
  from k a p b show ?thesis by blast
qed

text \<open>
  The claim as written gives the credential lookup the results of the first and third
  lookups. Two runs with the same area and the same analysis, for two zones: the inputs of
  the credential lookup differ, in the zone's id.
\<close>

theorem credential_inputs_follow_zone:
  "List.map_filter area_result
     (fst (httpalmaanalytics (example_env error_doc) (example_request ''GW'' ''loans''))) =
     [Some \<lparr>area_id = 1\<rparr>]
   \<and> List.map_filter area_result
     (fst (httpalmaanalytics (example_env error_doc) (example_request ''AU'' ''loans''))) =
     [Some \<lparr>area_id = 1\<rparr>]
   \<and> List.map_filter analysis_result
     (fst (httpalmaanalytics (example_env error_doc) (example_request ''GW'' ''loans''))) =
     [Some \<lparr>analysis_id = 5, name = ''loans''\<rparr>]
   \<and> List.map_filter analysis_result
     (fst (httpalmaanalytics (example_env error_doc) (example_request ''AU'' ''loans''))) =
     [Some \<lparr>analysis_id = 5, name = ''loans''\<rparr>]
   \<and> List.map_filter iz_result
     (fst (httpalmaanalytics (example_env error_doc) (example_request ''GW'' ''loans''))) =
     [Some \<lparr>iz_id = 10, code = ''GW''\<rparr>]
   \<and> List.map_filter iz_result
     (fst (httpalmaanalytics (example_env error_doc) (example_request ''AU'' ''loans''))) =
     [Some \<lparr>iz_id = 20, code = ''AU''\<rparr>]
   \<and> List.map_filter credential_input
     (fst (httpalmaanalytics (example_env error_doc) (example_request ''GW'' ''loans''))) =
     [(1, 10, False)]
   \<and> List.map_filter credential_input
     (fst (httpalmaanalytics (example_env error_doc) (example_request ''AU'' ''loans''))) =
     [(1, 20, False)]"
  by (simp add: example_run_GW example_run_AU List.map_filter_simps)

subsection \<open>The payload\<close>

lemma split_on_none: "c \<notin> set s \<Longrightarrow> split_on c s = [s]"
  by (induction s) auto

lemma split_on_append: "c \<notin> set xs \<Longrightarrow> split_on c (xs @ c # ys) = xs # split_on c ys"
  by (induction xs) auto

lemma key_value_eq: "CHR ''='' \<notin> set k \<Longrightarrow> key_value (k @ CHR ''='' # v) = (k, v)"
  by (induction k) (auto simp: key_value_def)

lemma hex_digit_in: "hex_digit n \<in> set ''0123456789ABCDEF''"
  unfolding hex_digit_def by (rule nth_mem) simp

text \<open>A byte that \<open>quoter\<close> writes is the byte itself, kept as safe, or part of \<open>%XX\<close>.\<close>

lemma quoter_chars:
  assumes "x \<in> set (quoter safe c)"
  shows "x = c \<and> (always_safe c \<or> c \<in> set safe) \<or> x = CHR ''%''
         \<or> x \<in> set ''0123456789ABCDEF''"
  using assms hex_digit_in by (auto simp: quoter_def split: if_splits)

lemma quoter_space: "c \<noteq> CHR '' '' \<Longrightarrow> CHR '' '' \<notin> set (quoter safe c)"
  using quoter_chars[of "CHR '' ''" safe c] by auto

lemma quoter_with_space:
  "map (\<lambda>c. if c = CHR '' '' then CHR ''+'' else c) (quoter (safe @ '' '') c) = plus_quoter safe c"
proof (cases "c = CHR '' ''")
  case True
  then show ?thesis by (simp add: quoter_def plus_quoter_def)
next
  case False
  then have "quoter (safe @ '' '') c = quoter safe c" by (simp add: quoter_def)
  moreover have "map (\<lambda>c. if c = CHR '' '' then CHR ''+'' else c) (quoter safe c) = quoter safe c"
    using quoter_space[OF False, of safe] by (intro map_idI) auto
  ultimately show ?thesis using False by (simp add: plus_quoter_def)
qed

text \<open>Both branches of \<open>quote_plus\<close> work byte by byte.\<close>

lemma quote_plus_concat: "quote_plus s safe = concat (map (plus_quoter safe) s)"
proof (cases "CHR '' '' \<in> set s")
  case True
  then show ?thesis
    by (simp add: quote_plus_def quote_def map_concat comp_def quoter_with_space)
next
  case False
  then have "concat (map (quoter safe) s) = concat (map (plus_quoter safe) s)"
    by (intro arg_cong[where f = concat] map_cong) (auto simp: plus_quoter_def)
  with False show ?thesis by (simp add: quote_plus_def quote_def)
qed

text \<open>With \<open>safe=':%'\<close> a colon and a percent sign stay where they are.\<close>

lemma quote_plus_literal:
  "c = CHR '':'' \<or> c = CHR ''%'' \<Longrightarrow>
   quote_plus (xs @ c # ys) '':%'' = quote_plus xs '':%'' @ c # quote_plus ys '':%''"
  by (auto simp: quote_plus_concat plus_quoter_def quoter_def)

text \<open>An encoded key or value holds neither separator of the query string.\<close>

lemma plus_quoter_no_separator:
  "CHR ''&'' \<notin> set (plus_quoter '':%'' c) \<and> CHR ''='' \<notin> set (plus_quoter '':%'' c)"
  using quoter_chars[of "CHR ''&''" "'':%''" c] quoter_chars[of "CHR ''=''" "'':%''" c]
  by (auto simp: plus_quoter_def always_safe_def)

lemma quote_plus_no_separator:
  "CHR ''&'' \<notin> set (quote_plus s '':%'')" "CHR ''='' \<notin> set (quote_plus s '':%'')"
  using plus_quoter_no_separator by (auto simp: quote_plus_concat)

lemma quote_plus_keys:
  "quote_plus ''path'' '':%'' = ''path''" "quote_plus ''apikey'' '':%'' = ''apikey''"
  "quote_plus ''limit'' '':%'' = ''limit''" "quote_plus ''col_names'' '':%'' = ''col_names''"
  "quote_plus ''1000'' '':%'' = ''1000''" "quote_plus ''true'' '':%'' = ''true''"
  by (simp_all add: quote_plus_def quote_def quoter_def always_safe_def)

text \<open>The four keys of the encoded dictionary, whatever the path and the key are.\<close>

lemma query_pairs_urlencode:
  "query_pairs (urlencode [(''path'', p), (''apikey'', k), (''limit'', ''1000''),
                            (''col_names'', ''true'')] '':%'') =
     [(''path'', quote_plus p '':%''), (''apikey'', quote_plus k '':%''),
      (''limit'', ''1000''), (''col_names'', ''true'')]"
proof -
  let ?P = "quote_plus p '':%''" and ?K = "quote_plus k '':%''"
  have u: "urlencode [(''path'', p), (''apikey'', k), (''limit'', ''1000''),
                       (''col_names'', ''true'')] '':%'' =
           (''path='' @ ?P) @ CHR ''&'' # (''apikey='' @ ?K) @ CHR ''&'' # ''limit=1000''
             @ CHR ''&'' # ''col_names=true''"
    by (simp add: urlencode_def quote_plus_keys)
  have s: "split_on CHR ''&'' ((''path='' @ ?P) @ CHR ''&'' # (''apikey='' @ ?K)
             @ CHR ''&'' # ''limit=1000'' @ CHR ''&'' # ''col_names=true'') =
           [''path='' @ ?P, ''apikey='' @ ?K, ''limit=1000'', ''col_names=true'']"
    using quote_plus_no_separator(1)[of p] quote_plus_no_separator(1)[of k]
    by (subst split_on_append, simp, subst split_on_append, simp, subst split_on_append, simp,
        subst split_on_none, simp, simp)
  have k1: "key_value (''path='' @ ?P) = (''path'', ?P)"
    using key_value_eq[of "''path''" ?P] by simp
  have k2: "key_value (''apikey='' @ ?K) = (''apikey'', ?K)"
    using key_value_eq[of "''apikey''" ?K] by simp
  have k3: "key_value ''limit=1000'' = (''limit'', ''1000'')" by (simp add: key_value_def)
  have k4: "key_value ''col_names=true'' = (''col_names'', ''true'')"
    by (simp add: key_value_def)
  show ?thesis unfolding query_pairs_def u s using k1 k2 k3 k4 by simp
qed

lemma resolve_Value:
  assumes "resolve e d = (t, Value payload)"
    and "IzAnalysisByIzAndAnalysis z a (Some iz_an) \<in> set t"
    and "ApiKeyByAreaAndIz ar zi w (Some key) \<in> set t"
  shows "payload = build_payload e iz_an key
                     (if dict_contains d ''resume'' then dict_get d ''resume'' else JNull)"
  using assms by (auto simp: resolve_def Let_def split: option.splits)

lemma set_payload_Value:
  assumes "set_payload e req = (t, Value payload)"
  obtains d where "get_json req = Some (JObj d)" and "resolve e d = (t, Value payload)"
  using assms by (auto simp: set_payload_def split: option.splits json.splits if_splits)

text \<open>
  C3, as the code has it. When \<open>set_payload\<close> returns a payload for a body \<open>req_body\<close>,
  with \<open>iz_an\<close> the path record and \<open>key\<close> the credential that the lookups returned, the
  payload is the encoded dictionary followed by the token part. The encoded dictionary
  reads as exactly the four keys \<open>path\<close>, \<open>apikey\<close>, \<open>limit=1000\<close> and
  \<open>col_names=true\<close>; in an encoded value every colon and percent sign is left as it is.
  The token part is \<open>&token=\<close> and the text of the token when \<open>resume\<close> is in the body
  and truthy, and nothing otherwise: a \<open>resume\<close> that is present but empty
  (or \<open>null\<close>, \<open>0\<close>, \<open>false\<close>) adds no key.
\<close>

theorem payload_query_string:
  assumes "set_payload e req = (t, Value payload)"
    and "get_json req = Some (JObj req_body)"
    and "IzAnalysisByIzAndAnalysis z a (Some iz_an) \<in> set t"
    and "ApiKeyByAreaAndIz ar zi w (Some key) \<in> set t"
  shows "payload =
           urlencode [(''path'', path iz_an), (''apikey'', apikey key), (''limit'', ''1000''),
                      (''col_names'', ''true'')] '':%''
           @ (if dict_contains req_body ''resume'' \<and> truthy (dict_get req_body ''resume'')
              then ''&token='' @ format_value e (dict_get req_body ''resume'') else [])
       \<and> query_pairs (urlencode [(''path'', path iz_an), (''apikey'', apikey key),
                                  (''limit'', ''1000''), (''col_names'', ''true'')] '':%'') =
           [(''path'', quote_plus (path iz_an) '':%''),
            (''apikey'', quote_plus (apikey key) '':%''),
            (''limit'', ''1000''), (''col_names'', ''true'')]
       \<and> (\<forall>xs c ys. c = CHR '':'' \<or> c = CHR ''%'' \<longrightarrow>
             quote_plus (xs @ c # ys) '':%'' = quote_plus xs '':%'' @ c # quote_plus ys '':%'')"
proof -
  from assms(1,2) have "resolve e req_body = (t, Value payload)"
    by (auto elim: set_payload_Value)
  from resolve_Value[OF this assms(3,4)]
  have "payload = build_payload e iz_an key
                    (if dict_contains req_body ''resume'' then dict_get req_body ''resume''
                     else JNull)" .
  then have "payload =
           urlencode [(''path'', path iz_an), (''apikey'', apikey key), (''limit'', ''1000''),
                      (''col_names'', ''true'')] '':%''
           @ (if dict_contains req_body ''resume'' \<and> truthy (dict_get req_body ''resume'')
              then ''&token='' @ format_value e (dict_get req_body ''resume'') else [])"
    by (simp add: build_payload_def Let_def)
  then show ?thesis using query_pairs_urlencode quote_plus_literal by blast
qed

lemma resume_payload:
  "set_payload (example_env d) (request_with_resume ''GW'' ''loans'' (JStr ''abc:1%2F 3'')) =
     ([AreaByName ''analytics'' (Some \<lparr>area_id = 1\<rparr>),
       IzByCode (JStr ''GW'') (Some \<lparr>iz_id = 10, code = ''GW''\<rparr>),
       AnalysisByName (JStr ''loans'') (Some \<lparr>analysis_id = 5, name = ''loans''\<rparr>),
       IzAnalysisByIzAndAnalysis \<lparr>iz_id = 10, code = ''GW''\<rparr>
         \<lparr>analysis_id = 5, name = ''loans''\<rparr> (Some \<lparr>path = ''/shared/GW:loans''\<rparr>),
       ApiKeyByAreaAndIz 1 10 False (Some \<lparr>apikey = ''l8xx''\<rparr>)],
      Value ''path=%2Fshared%2FGW:loans&apikey=l8xx&limit=1000&col_names=true&token=abc:1%2F 3'')"
  by (simp add: set_payload_def resolve_def example_env_def request_with_resume_def dict_get_def
      dict_contains_def build_payload_def urlencode_def quote_plus_def quote_def quoter_def
      always_safe_def hex_digit_def format_value_def)

theorem payload_query_string_witness:
  "''path=%2Fshared%2FGW:loans&apikey=l8xx&limit=1000&col_names=true&token=abc:1%2F 3'' =
      urlencode [(''path'', ''/shared/GW:loans''), (''apikey'', ''l8xx''), (''limit'', ''1000''),
                 (''col_names'', ''true'')] '':%'' @ ''&token=abc:1%2F 3''
   \<and> query_pairs (urlencode [(''path'', ''/shared/GW:loans''), (''apikey'', ''l8xx''),
                              (''limit'', ''1000''), (''col_names'', ''true'')] '':%'') =
       [(''path'', quote_plus ''/shared/GW:loans'' '':%''), (''apikey'', quote_plus ''l8xx'' '':%''),
        (''limit'', ''1000''), (''col_names'', ''true'')]
   \<and> quote_plus (''/shared/GW'' @ CHR '':'' # ''loans'') '':%'' =
       quote_plus ''/shared/GW'' '':%'' @ CHR '':'' # quote_plus ''loans'' '':%''"
proof -
  let ?t = "[AreaByName ''analytics'' (Some \<lparr>area_id = 1\<rparr>),
       IzByCode (JStr ''GW'') (Some \<lparr>iz_id = 10, code = ''GW''\<rparr>),
       AnalysisByName (JStr ''loans'') (Some \<lparr>analysis_id = 5, name = ''loans''\<rparr>),
       IzAnalysisByIzAndAnalysis \<lparr>iz_id = 10, code = ''GW''\<rparr>
         \<lparr>analysis_id = 5, name = ''loans''\<rparr> (Some \<lparr>path = ''/shared/GW:loans''\<rparr>),
       ApiKeyByAreaAndIz 1 10 False (Some \<lparr>apikey = ''l8xx''\<rparr>)]"
  have g: "get_json (request_with_resume ''GW'' ''loans'' (JStr ''abc:1%2F 3'')) =
             Some (JObj [(''iz'', JStr ''GW''), (''analysis'', JStr ''loans''),
                         (''resume'', JStr ''abc:1%2F 3'')])"
    by (simp add: request_with_resume_def)
  have m1: "IzAnalysisByIzAndAnalysis \<lparr>iz_id = 10, code = ''GW''\<rparr>
              \<lparr>analysis_id = 5, name = ''loans''\<rparr> (Some \<lparr>path = ''/shared/GW:loans''\<rparr>)
            \<in> set ?t" by simp
  have m2: "ApiKeyByAreaAndIz 1 10 False (Some \<lparr>apikey = ''l8xx''\<rparr>) \<in> set ?t" by simp
  note th = payload_query_string[OF resume_payload[of "NavigableString []"] g m1 m2]
  have a: "''path=%2Fshared%2FGW:loans&apikey=l8xx&limit=1000&col_names=true&token=abc:1%2F 3'' =
      urlencode [(''path'', ''/shared/GW:loans''), (''apikey'', ''l8xx''), (''limit'', ''1000''),
                 (''col_names'', ''true'')] '':%'' @ ''&token=abc:1%2F 3''
   \<and> query_pairs (urlencode [(''path'', ''/shared/GW:loans''), (''apikey'', ''l8xx''),
                              (''limit'', ''1000''), (''col_names'', ''true'')] '':%'') =
       [(''path'', quote_plus ''/shared/GW:loans'' '':%''), (''apikey'', quote_plus ''l8xx'' '':%''),
        (''limit'', ''1000''), (''col_names'', ''true'')]"
    using th by (simp add: dict_contains_def dict_get_def format_value_def)
  have b: "quote_plus (''/shared/GW'' @ CHR '':'' # ''loans'') '':%'' =
       quote_plus ''/shared/GW'' '':%'' @ CHR '':'' # quote_plus ''loans'' '':%''"
    using th by blast
  from a b show ?thesis by blast
qed

text \<open>
  The claim as written appends the token whenever \<open>resume\<close> is present in the body.
  Here \<open>resume\<close> is present and is the empty string; the payload has the four keys and
  no \<open>token\<close>. The same holds when \<open>resume\<close> is \<open>0\<close>.
\<close>

theorem resume_present_but_empty:
  "dict_contains [(''iz'', JStr ''GW''), (''analysis'', JStr ''loans''), (''resume'', JStr [])]
     ''resume''
   \<and> get_json (request_with_resume ''GW'' ''loans'' (JStr [])) =
       Some (JObj [(''iz'', JStr ''GW''), (''analysis'', JStr ''loans''), (''resume'', JStr [])])
   \<and> snd (set_payload (example_env report_doc) (request_with_resume ''GW'' ''loans'' (JStr []))) =
       Value ''path=%2Fshared%2FGW:loans&apikey=l8xx&limit=1000&col_names=true''
   \<and> snd (set_payload (example_env report_doc) (request_with_resume ''GW'' ''loans'' (JInt 0))) =
       Value ''path=%2Fshared%2FGW:loans&apikey=l8xx&limit=1000&col_names=true''
   \<and> query_pairs ''path=%2Fshared%2FGW:loans&apikey=l8xx&limit=1000&col_names=true'' =
       [(''path'', ''%2Fshared%2FGW:loans''), (''apikey'', ''l8xx''), (''limit'', ''1000''),
        (''col_names'', ''true'')]"
  by (simp add: set_payload_def resolve_def example_env_def request_with_resume_def dict_get_def
      dict_contains_def build_payload_def urlencode_def quote_plus_def quote_def quoter_def
      always_safe_def hex_digit_def format_value_def query_pairs_def key_value_def)

subsection \<open>The parsed document: errors, no columns, no rows\<close>

lemma handler_error_element:
  assumes "set_payload e req = (t1, Value p)"
    and "make_api_call e p = (t2, Value r)"
    and "find_first ''error'' (BeautifulSoup e (content r)) = Some x"
  shows "httpalmaanalytics e req =
           (t1 @ t2 @ [SoupFind ''error'', SoupFind ''error'',
                       LogError ''Error: %s'' [JStr (get_text x)], SoupFind ''error''],
            Inr (HttpResponse (''Error: '' @ get_text x) 500))"
  using assms by (simp add: httpalmaanalytics_def get_soup_def tag_bool_def)

text \<open>
  C7, as the code has it: when the remote call returned a document that contains an
  \<open>error\<close> element, the handler answers 500 and the body is \<open>Error:\<close> followed by
  the text of the first \<open>error\<close> element in document order (the one \<open>soup.find\<close>
  returns), so the body contains that text. No \<open>find_all\<close> is made on the document:
  neither the column declarations nor the rows are looked for.
\<close>

theorem error_element_500:
  assumes "set_payload e req = (t1, Value p)"
    and "make_api_call e p = (t2, Value r)"
    and "find_first ''error'' (BeautifulSoup e (content r)) = Some x"
  shows "(\<exists>resp. snd (httpalmaanalytics e req) = Inr resp \<and> status_code resp = 500
              \<and> body resp = ''Error: '' @ get_text x \<and> sublist (get_text x) (body resp))
         \<and> \<not> (\<exists>n. SoupFindAll n \<in> set (fst (httpalmaanalytics e req)))"
proof -
  have a: "\<forall>c\<in>set t1. \<not> is_soup_query c"
    using set_payload_calls[of _ e req] assms(1) by auto
  have b: "\<forall>c\<in>set t2. \<not> is_soup_query c"
    using make_api_call_calls[of _ e p] assms(2) by auto
  have c: "\<not> (\<exists>n. SoupFindAll n \<in> set (t1 @ t2))" using a b by fastforce
  have d: "sublist (get_text x) (''Error: '' @ get_text x)"
    by (rule sublist_append_leftI)
  show ?thesis using c d by (simp add: handler_error_element[OF assms] HttpResponse_def)
qed

lemma error_doc_find:
  "find_first ''error'' error_doc = Some (Tag None ''error'' [] [NavigableString ''Report not found''])"
  by (simp add: find_first_def find_all_def matches_name_def error_doc_def)

text \<open>
  The example document has an \<open>error\<close> element and an \<open>xsd:element\<close> without
  attributes, on which column extraction alone would raise.
\<close>

lemma error_doc_columns_raise:
  "snd (get_columns error_doc) = Raised (KeyError ''saw-sql:columnHeading'')"
  by (simp add: get_columns_def find_all_def matches_name_def error_doc_def getitem_def)

theorem error_element_500_witness:
  "(\<exists>resp. snd (httpalmaanalytics (example_env error_doc) (example_request ''GW'' ''loans''))
            = Inr resp
          \<and> status_code resp = 500 \<and> body resp = ''Error: Report not found''
          \<and> sublist ''Report not found'' (body resp))
   \<and> \<not> (\<exists>n. SoupFindAll n \<in> set (fst (httpalmaanalytics (example_env error_doc)
                                          (example_request ''GW'' ''loans''))))"
proof -
  have f: "find_first ''error'' (BeautifulSoup (example_env error_doc)
             (content \<lparr>http_status = 200, content = []\<rparr>)) =
           Some (Tag None ''error'' [] [NavigableString ''Report not found''])"
    by (simp add: example_soup error_doc_find)
  from error_element_500[OF example_set_payload example_make_api_call f]
  show ?thesis by simp
qed

text \<open>
  The claim as written puts the text of any \<open>error\<close> element of the document in the
  body. This document has two; the body has the text of the first and does not contain
  the text of the second.
\<close>

theorem second_error_not_in_body:
  "find_all ''error'' two_errors_doc =
     [Tag None ''error'' [] [NavigableString ''first''],
      Tag None ''error'' [] [NavigableString ''second'']]
   \<and> get_text (Tag None ''error'' [] [NavigableString ''second'']) = ''second''
   \<and> snd (httpalmaanalytics (example_env two_errors_doc) (example_request ''GW'' ''loans'')) =
       Inr (HttpResponse ''Error: first'' 500)
   \<and> \<not> sublist ''second'' ''Error: first''"
  by (simp add: httpalmaanalytics_def example_set_payload example_make_api_call get_soup_def
      example_soup tag_bool_def find_first_def find_all_def matches_name_def two_errors_doc_def
      sublist_code)

lemma get_soup_no_error:
  assumes "find_first ''error'' (BeautifulSoup e (content r)) = None"
  shows "get_soup e r = ([SoupFind ''error''], Value (BeautifulSoup e (content r)))"
  using assms by (simp add: get_soup_def tag_bool_def)

lemma columns_loop_succeeds:
  "\<forall>d\<in>set ds. map_of (attrs d) ''name'' \<noteq> None
              \<and> map_of (attrs d) ''saw-sql:columnHeading'' \<noteq> None
   \<Longrightarrow> \<exists>cols. columns_loop ds acc = Inr cols"
  by (induction ds arbitrary: acc) (auto simp: getitem_def)

text \<open>
  C6, as the code has it. For a document without an \<open>error\<close> element: with no
  \<open>xsd:element\<close> the handler answers 404 \<open>No columns found\<close>; with at least one
  \<open>xsd:element\<close>, each carrying a \<open>name\<close> and a \<open>saw-sql:columnHeading\<close> attribute,
  and no \<open>Row\<close>, it answers 404 \<open>No rows found\<close>.
\<close>

theorem no_columns_no_rows_404:
  assumes "set_payload e req = (t1, Value p)"
    and "make_api_call e p = (t2, Value r)"
    and "find_first ''error'' (BeautifulSoup e (content r)) = None"
  shows "(find_all ''xsd:element'' (BeautifulSoup e (content r)) = [] \<longrightarrow>
            snd (httpalmaanalytics e req) = Inr (HttpResponse ''No columns found'' 404))
       \<and> (find_all ''xsd:element'' (BeautifulSoup e (content r)) \<noteq> []
          \<and> (\<forall>d\<in>set (find_all ''xsd:element'' (BeautifulSoup e (content r))).
                map_of (attrs d) ''name'' \<noteq> None
                \<and> map_of (attrs d) ''saw-sql:columnHeading'' \<noteq> None)
          \<and> find_all ''Row'' (BeautifulSoup e (content r)) = [] \<longrightarrow>
            snd (httpalmaanalytics e req) = Inr (HttpResponse ''No rows found'' 404))"
proof (intro conjI impI)
  assume "find_all ''xsd:element'' (BeautifulSoup e (content r)) = []"
  then show "snd (httpalmaanalytics e req) = Inr (HttpResponse ''No columns found'' 404)"
    using assms(1,2) get_soup_no_error[OF assms(3)]
    by (simp add: httpalmaanalytics_def get_columns_def)
next
  assume a: "find_all ''xsd:element'' (BeautifulSoup e (content r)) \<noteq> []
          \<and> (\<forall>d\<in>set (find_all ''xsd:element'' (BeautifulSoup e (content r))).
                map_of (attrs d) ''name'' \<noteq> None
                \<and> map_of (attrs d) ''saw-sql:columnHeading'' \<noteq> None)
          \<and> find_all ''Row'' (BeautifulSoup e (content r)) = []"
  then obtain cols
    where "columns_loop (find_all ''xsd:element'' (BeautifulSoup e (content r))) [] = Inr cols"
    using columns_loop_succeeds by blast
  with a show "snd (httpalmaanalytics e req) = Inr (HttpResponse ''No rows found'' 404)"
    using assms(1,2) get_soup_no_error[OF assms(3)]
    by (simp add: httpalmaanalytics_def get_columns_def get_rows_def)
qed

theorem no_columns_no_rows_404_witness:
  "snd (httpalmaanalytics (example_env rows_only_doc) (example_request ''GW'' ''loans'')) =
     Inr (HttpResponse ''No columns found'' 404)
   \<and> snd (httpalmaanalytics (example_env columns_only_doc) (example_request ''GW'' ''loans'')) =
     Inr (HttpResponse ''No rows found'' 404)"
proof -
  have e1: "find_first ''error'' (BeautifulSoup (example_env rows_only_doc)
              (content \<lparr>http_status = 200, content = []\<rparr>)) = None"
    by (simp add: example_soup find_first_def find_all_def matches_name_def rows_only_doc_def cell_def)
  have c1: "find_all ''xsd:element'' (BeautifulSoup (example_env rows_only_doc)
              (content \<lparr>http_status = 200, content = []\<rparr>)) = []"
    by (simp add: example_soup find_all_def matches_name_def rows_only_doc_def cell_def)
  have e2: "find_first ''error'' (BeautifulSoup (example_env columns_only_doc)
              (content \<lparr>http_status = 200, content = []\<rparr>)) = None"
    by (simp add: example_soup find_first_def find_all_def matches_name_def columns_only_doc_def column_decl_def)
  have c2: "find_all ''xsd:element'' (BeautifulSoup (example_env columns_only_doc)
              (content \<lparr>http_status = 200, content = []\<rparr>)) = [column_decl ''Column1'' ''Title'']"
    by (simp add: example_soup find_all_def matches_name_def columns_only_doc_def column_decl_def)
  have r2: "find_all ''Row'' (BeautifulSoup (example_env columns_only_doc)
              (content \<lparr>http_status = 200, content = []\<rparr>)) = []"
    by (simp add: example_soup find_all_def matches_name_def columns_only_doc_def column_decl_def)
  from no_columns_no_rows_404[OF example_set_payload example_make_api_call e1] c1
  have "snd (httpalmaanalytics (example_env rows_only_doc) (example_request ''GW'' ''loans'')) =
          Inr (HttpResponse ''No columns found'' 404)" by blast
  moreover
  from no_columns_no_rows_404[OF example_set_payload example_make_api_call e2] c2 r2
  have "snd (httpalmaanalytics (example_env columns_only_doc) (example_request ''GW'' ''loans'')) =
          Inr (HttpResponse ''No rows found'' 404)" by (simp add: column_decl_def)
  ultimately show ?thesis by blast
qed

text \<open>
  The claim as written covers every document without an \<open>error\<close> element. This one has
  an \<open>xsd:element\<close> and no \<open>Row\<close>, and the handler answers nothing:
  \<open>column['saw-sql:columnHeading']\<close> raises \<open>KeyError\<close>, since the element has no
  such attribute.
\<close>

theorem bare_element_raises:
  "find_first ''error'' bare_element_doc = None
   \<and> find_all ''xsd:element'' bare_element_doc = [Tag (Some ''xsd'') ''element'' [] []]
   \<and> find_all ''Row'' bare_element_doc = []
   \<and> snd (httpalmaanalytics (example_env bare_element_doc) (example_request ''GW'' ''loans'')) =
       Inl (KeyError ''saw-sql:columnHeading'')"
  by (simp add: httpalmaanalytics_def example_set_payload example_make_api_call get_soup_def
      example_soup tag_bool_def find_first_def find_all_def matches_name_def bare_element_doc_def get_columns_def
      getitem_def)

text \<open>
  A document without elements passes the test \<open>if not soup\<close>, which no document
  fails, and stops where any document without column declarations stops.
\<close>

lemma get_soup_never_empty_response:
  "snd (get_soup e r) \<noteq> Responded (HttpResponse ''Empty or invalid XML response'' 404)"
  by (simp add: get_soup_def tag_bool_def HttpResponse_def Let_def split: option.splits)

text \<open>
  C10: a remote call that succeeds with a body that parses to a document with no
  elements at all should be answered with 404 \<open>Empty or invalid XML response\<close>. The
  handler answers 404 \<open>No columns found\<close>, after the check for an \<open>error\<close> element and
  from \<open>get_columns\<close>; the log entry \<open>Empty or invalid XML response\<close> is not written.
\<close>

theorem empty_document_no_columns_found:
  "httpalmaanalytics (example_env empty_doc) (example_request ''GW'' ''loans'') =
     ([AreaByName ''analytics'' (Some \<lparr>area_id = 1\<rparr>),
       IzByCode (JStr ''GW'') (Some \<lparr>iz_id = 10, code = ''GW''\<rparr>),
       AnalysisByName (JStr ''loans'') (Some \<lparr>analysis_id = 5, name = ''loans''\<rparr>),
       IzAnalysisByIzAndAnalysis \<lparr>iz_id = 10, code = ''GW''\<rparr>
         \<lparr>analysis_id = 5, name = ''loans''\<rparr> (Some \<lparr>path = ''/shared/GW:loans''\<rparr>),
       ApiKeyByAreaAndIz 1 10 False (Some \<lparr>apikey = ''l8xx''\<rparr>),
       RequestsGet url ''path=%2Fshared%2FGW:loans&apikey=l8xx&limit=1000&col_names=true'' 600,
       SoupFind ''error'', SoupFindAll ''xsd:element'', LogError ''No columns found'' []],
      Inr (HttpResponse ''No columns found'' 404))"
  by (simp add: httpalmaanalytics_def example_set_payload example_make_api_call get_soup_def
      example_soup tag_bool_def find_first_def find_all_def matches_name_def empty_doc_def get_columns_def)

subsection \<open>The column map\<close>

text \<open>One turn of the loop stores the normalised heading under the name.\<close>

lemma columns_loop_Inr_Cons:
  assumes "columns_loop (d # rest) acc = Inr cols"
  obtains n h where "map_of (attrs d) ''name'' = Some n"
    and "map_of (attrs d) ''saw-sql:columnHeading'' = Some h"
    and "columns_loop rest (AList.update n (normalised h) acc) = Inr cols"
  using assms
  by (auto simp: getitem_def normalised_def split: option.splits if_splits)

lemma columns_loop_other:
  "columns_loop ds acc = Inr cols \<Longrightarrow>
   \<forall>d\<in>set ds. map_of (attrs d) ''name'' \<noteq> Some n \<Longrightarrow> map_of cols n = map_of acc n"
proof (induction ds arbitrary: acc)
  case Nil
  then show ?case by simp
next
  case (Cons d ds)
  from Cons.prems(1) obtain m h where m: "map_of (attrs d) ''name'' = Some m"
    and step: "columns_loop ds (AList.update m (normalised h) acc) = Inr cols"
    by (rule columns_loop_Inr_Cons)
  from Cons.prems(2) m have "m \<noteq> n" by auto
  moreover from Cons.IH[OF step] Cons.prems(2)
  have "map_of cols n = map_of (AList.update m (normalised h) acc) n" by simp
  ultimately show ?case by (simp add: update_conv')
qed

lemma columns_loop_append:
  "columns_loop (xs @ ys) acc = Inr cols \<Longrightarrow>
   \<exists>mid. columns_loop xs acc = Inr mid \<and> columns_loop ys mid = Inr cols"
proof (induction xs arbitrary: acc)
  case Nil
  then show ?case by simp
next
  case (Cons d xs)
  from Cons.prems have "columns_loop (d # (xs @ ys)) acc = Inr cols" by simp
  then obtain n h where n: "map_of (attrs d) ''name'' = Some n"
    and h: "map_of (attrs d) ''saw-sql:columnHeading'' = Some h"
    and step: "columns_loop (xs @ ys) (AList.update n (normalised h) acc) = Inr cols"
    by (rule columns_loop_Inr_Cons)
  from Cons.IH[OF step] obtain mid
    where "columns_loop xs (AList.update n (normalised h) acc) = Inr mid"
      "columns_loop ys mid = Inr cols" by blast
  with n h show ?case by (auto simp: getitem_def normalised_def)
qed

lemma columns_loop_entry:
  assumes "columns_loop (pre @ d # post) acc = Inr cols"
    and "\<forall>d'\<in>set post. map_of (attrs d') ''name'' \<noteq> map_of (attrs d) ''name''"
  shows "\<exists>n h. map_of (attrs d) ''name'' = Some n
               \<and> map_of (attrs d) ''saw-sql:columnHeading'' = Some h
               \<and> map_of cols n = Some (normalised h)"
proof -
  from columns_loop_append[OF assms(1)] obtain mid
    where "columns_loop (d # post) mid = Inr cols" by blast
  then obtain n h where n: "map_of (attrs d) ''name'' = Some n"
    and h: "map_of (attrs d) ''saw-sql:columnHeading'' = Some h"
    and step: "columns_loop post (AList.update n (normalised h) mid) = Inr cols"
    by (rule columns_loop_Inr_Cons)
  from assms(2) n have "\<forall>d'\<in>set post. map_of (attrs d') ''name'' \<noteq> Some n" by simp
  from columns_loop_other[OF step this] have "map_of cols n = Some (normalised h)"
    by (simp add: update_conv')
  with n h show ?thesis by blast
qed

lemma get_columns_Value:
  "get_columns soup = (t, Value columns) \<Longrightarrow>
   columns_loop (find_all ''xsd:element'' soup) [] = Inr columns"
  by (auto simp: get_columns_def Let_def split: if_splits sum.splits)

text \<open>
  C4, as the code has it. In the column map that column extraction returns, a
  declaration \<open>d\<close> after which no declaration has the same \<open>name\<close> attribute has its
  entry: the name is mapped to \<open>Provenance Code\<close> when the heading contains
  \<open>CASE  WHEN Provenance Code\<close>, and to the heading unchanged otherwise. (A later
  declaration with the same name replaces the entry of an earlier one.)
\<close>

theorem column_map_last_declaration:
  assumes "get_columns soup = (t, Value columns)"
    and "find_all ''xsd:element'' soup = pre @ d # post"
    and "\<forall>d'\<in>set post. map_of (attrs d') ''name'' \<noteq> map_of (attrs d) ''name''"
  shows "\<exists>n h. map_of (attrs d) ''name'' = Some n
               \<and> map_of (attrs d) ''saw-sql:columnHeading'' = Some h
               \<and> map_of columns n =
                   Some (if sublist ''CASE  WHEN Provenance Code'' h then ''Provenance Code''
                         else h)"
  using columns_loop_entry[of pre d post "[]" columns] get_columns_Value[OF assms(1)] assms(2,3)
  by (simp add: normalised_def)

lemma report_doc_columns:
  "get_columns report_doc = ([SoupFindAll ''xsd:element''], Value report_columns)"
  by (simp add: get_columns_def find_all_def matches_name_def report_doc_def column_decl_def cell_def
      report_columns_def getitem_def sublist_code)

theorem column_map_last_declaration_witness:
  "get_columns report_doc = ([SoupFindAll ''xsd:element''], Value report_columns)
   \<and> find_all ''xsd:element'' report_doc =
       [column_decl ''Column0'' ''0'', column_decl ''Column1'' ''Title'']
       @ column_decl ''Column2'' ''CASE  WHEN Provenance Code = 1 THEN 2 END''
       # [column_decl ''Column3'' ''CASE  WHEN Provenance Code = 3 THEN 4 END'']
   \<and> map_of report_columns ''Column2'' = Some ''Provenance Code''
   \<and> find_all ''xsd:element'' report_doc =
       [column_decl ''Column0'' ''0'']
       @ column_decl ''Column1'' ''Title''
       # [column_decl ''Column2'' ''CASE  WHEN Provenance Code = 1 THEN 2 END'',
          column_decl ''Column3'' ''CASE  WHEN Provenance Code = 3 THEN 4 END'']
   \<and> map_of report_columns ''Column1'' = Some ''Title''"
proof -
  have f2: "find_all ''xsd:element'' report_doc =
       [column_decl ''Column0'' ''0'', column_decl ''Column1'' ''Title'']
       @ column_decl ''Column2'' ''CASE  WHEN Provenance Code = 1 THEN 2 END''
       # [column_decl ''Column3'' ''CASE  WHEN Provenance Code = 3 THEN 4 END'']"
    by (simp add: find_all_def matches_name_def report_doc_def column_decl_def cell_def)
  have d2: "\<forall>d'\<in>set [column_decl ''Column3'' ''CASE  WHEN Provenance Code = 3 THEN 4 END''].
              map_of (attrs d') ''name'' \<noteq>
              map_of (attrs (column_decl ''Column2'' ''CASE  WHEN Provenance Code = 1 THEN 2 END''))
                ''name''"
    by (simp add: column_decl_def)
  have f1: "find_all ''xsd:element'' report_doc =
       [column_decl ''Column0'' ''0'']
       @ column_decl ''Column1'' ''Title''
       # [column_decl ''Column2'' ''CASE  WHEN Provenance Code = 1 THEN 2 END'',
          column_decl ''Column3'' ''CASE  WHEN Provenance Code = 3 THEN 4 END'']"
    by (simp add: find_all_def matches_name_def report_doc_def column_decl_def cell_def)
  have d1: "\<forall>d'\<in>set [column_decl ''Column2'' ''CASE  WHEN Provenance Code = 1 THEN 2 END'',
                      column_decl ''Column3'' ''CASE  WHEN Provenance Code = 3 THEN 4 END''].
              map_of (attrs d') ''name'' \<noteq> map_of (attrs (column_decl ''Column1'' ''Title'')) ''name''"
    by (simp add: column_decl_def)
  from column_map_last_declaration[OF report_doc_columns f2 d2]
  have a: "map_of report_columns ''Column2'' = Some ''Provenance Code''"
    by (simp add: column_decl_def sublist_code)
  from column_map_last_declaration[OF report_doc_columns f1 d1]
  have b: "map_of report_columns ''Column1'' = Some ''Title''"
    by (simp add: column_decl_def sublist_code)
  from report_doc_columns f2 a f1 b show ?thesis by blast
qed

text \<open>
  The claim as written maps the name of every declaration whose heading contains the
  case expression to \<open>Provenance Code\<close>. Here two declarations have the name
  \<open>Column1\<close>; the heading of the first contains the case expression, and the map
  sends \<open>Column1\<close> to the heading of the second.
\<close>

theorem duplicate_name_last_heading:
  "find_all ''xsd:element'' duplicate_doc =
     [column_decl ''Column1'' ''CASE  WHEN Provenance Code = 1 THEN 2 END'',
      column_decl ''Column1'' ''Title'']
   \<and> sublist ''CASE  WHEN Provenance Code'' ''CASE  WHEN Provenance Code = 1 THEN 2 END''
   \<and> get_columns duplicate_doc = ([SoupFindAll ''xsd:element''], Value [(''Column1'', ''Title'')])
   \<and> map_of [(''Column1'', ''Title'')] ''Column1'' \<noteq> Some ''Provenance Code''"
  by (simp add: get_columns_def find_all_def matches_name_def duplicate_doc_def column_decl_def getitem_def
      sublist_code)

subsection \<open>The rows\<close>

text \<open>The inner loop is a fold over the children not named \<open>Column0\<close>.\<close>

lemma kids_loop_fold:
  "kids_loop columns kids acc =
     foldl (\<lambda>acc kid. AList.update (resolved_header columns kid) (get_text kid) acc) acc
       (filter (\<lambda>kid. tag_name kid \<noteq> ''Column0'') kids)"
  by (induction kids arbitrary: acc) (auto simp: resolved_header_def split: option.splits)

lemma row_values_row_mapping: "row_values columns row = row_mapping columns row"
  by (simp add: row_values_def row_mapping_def kids_loop_fold)

lemma fold_update_lookup:
  "map_of (foldl (\<lambda>acc kid. AList.update (f kid) (g kid) acc) acc kids) h =
     (if filter (\<lambda>kid. f kid = h) kids = [] then map_of acc h
      else Some (g (last (filter (\<lambda>kid. f kid = h) kids))))"
  by (induction kids arbitrary: acc) (auto simp: update_conv')

lemma fold_update_distinct:
  "distinct (map fst acc) \<Longrightarrow>
   distinct (map fst (foldl (\<lambda>acc kid. AList.update (f kid) (g kid) acc) acc kids))"
  by (induction kids arbitrary: acc) (auto simp: distinct_update)

lemma fold_update_keys:
  "fst ` set (foldl (\<lambda>acc kid. AList.update (f kid) (g kid) acc) acc kids) =
     fst ` set acc \<union> f ` set kids"
  by (induction kids arbitrary: acc) (auto simp: dom_update)



lemma distinct_single_entry:
  "distinct (map fst al) \<Longrightarrow> map_of al h = Some v \<Longrightarrow> filter (\<lambda>p. fst p = h) al = [(h, v)]"
proof (induction al)
  case Nil
  then show ?case by simp
next
  case (Cons p al)
  show ?case
  proof (cases "fst p = h")
    case True
    with Cons.prems have "p = (h, v)" by (cases p) auto
    moreover from Cons.prems True have "h \<notin> fst ` set al" by auto
    then have "filter (\<lambda>p. fst p = h) al = []" by (auto simp: filter_empty_conv)
    ultimately show ?thesis by simp
  next
    case False
    with Cons show ?thesis by (cases p) auto
  qed
qed

text \<open>A document with a \<open>Row\<close> gets its rows: one mapping for each \<open>Row\<close>, in order.\<close>

lemma get_rows_rows:
  assumes "find_all ''Row'' soup \<noteq> []"
  shows "get_rows soup columns =
           ([SoupFindAll ''Row''], Value (map (row_values columns) (find_all ''Row'' soup)))"
  using assms by (simp add: get_rows_def)



lemma report_doc_row:
  "find_all ''Row'' report_doc =
     [Tag None ''Row'' [] [cell ''Column0'' ''0'', cell ''Column1'' ''Foo'',
                           cell ''Column2'' ''A'', cell ''Column3'' ''B'', cell ''Extra'' ''x'']]"
  by (simp add: find_all_def matches_name_def report_doc_def column_decl_def cell_def)




text \<open>
  The name that row extraction reads is \<open>kid.name\<close>, without the prefix: a row in a
  document whose tags carry a prefix loses its \<open>Column0\<close> all the same.
\<close>

lemma prefixed_row_example:
  "get_rows (Tag None ''[document]'' []
       [Tag (Some ''r'') ''Row'' []
          [Tag (Some ''r'') ''Column0'' [] [NavigableString ''0''],
           Tag (Some ''r'') ''Column1'' [] [NavigableString ''Foo'']]])
     [(''Column1'', ''Title'')] =
   ([SoupFindAll ''Row''], Value [[(''Title'', ''Foo'')]])"
  by (simp add: get_rows_def find_all_def matches_name_def row_values_def findChildren_def)

text \<open>
  C9: a document with \<open>Row\<close> elements gets its rows, and in the mapping of a row,
  when children not named \<open>Column0\<close> resolve to the header \<open>h\<close> (two or more of them,
  or one), the mapping has one entry for \<open>h\<close>, and it holds the text of the last of
  these children in document order.
\<close>

theorem last_child_wins:
  assumes "i < length (find_all ''Row'' soup)"
    and "same = filter (\<lambda>kid. tag_name kid \<noteq> ''Column0'' \<and> resolved_header columns kid = h)
                  (findChildren (find_all ''Row'' soup ! i))"
    and "same \<noteq> []"
  shows "get_rows soup columns =
           ([SoupFindAll ''Row''], Value (map (row_values columns) (find_all ''Row'' soup)))
       \<and> filter (\<lambda>p. fst p = h) (map (row_values columns) (find_all ''Row'' soup) ! i) =
           [(h, get_text (last same))]"
proof -
  let ?row = "find_all ''Row'' soup ! i"
  from assms(1) have ne: "find_all ''Row'' soup \<noteq> []" by auto
  have r: "map (row_values columns) (find_all ''Row'' soup) ! i = row_mapping columns ?row"
    using assms(1) by (simp add: row_values_row_mapping)
  have s: "same = filter (\<lambda>kid. resolved_header columns kid = h)
                    (filter (\<lambda>kid. tag_name kid \<noteq> ''Column0'') (findChildren ?row))"
    by (simp add: assms(2))
  have "map_of (row_mapping columns ?row) h = Some (get_text (last same))"
    unfolding row_mapping_def fold_update_lookup using assms(3) s by simp
  moreover have "distinct (map fst (row_mapping columns ?row))"
    unfolding row_mapping_def by (rule fold_update_distinct) simp
  ultimately have "filter (\<lambda>p. fst p = h) (row_mapping columns ?row) =
                     [(h, get_text (last same))]"
    by (rule distinct_single_entry[rotated])
  with r get_rows_rows[OF ne] show ?thesis by simp
qed

lemma report_doc_rows:
  "get_rows report_doc report_columns =
     ([SoupFindAll ''Row''],
      Value [[(''Title'', ''Foo''), (''Provenance Code'', ''B''), (''Extra'', ''x'')]])"
  by (simp add: get_rows_def find_all_def matches_name_def report_doc_def column_decl_def cell_def
      report_columns_def row_values_def findChildren_def)

theorem last_child_wins_witness:
  "get_rows report_doc report_columns =
     ([SoupFindAll ''Row''],
      Value [[(''Title'', ''Foo''), (''Provenance Code'', ''B''), (''Extra'', ''x'')]])
   \<and> filter (\<lambda>kid. tag_name kid \<noteq> ''Column0''
                  \<and> resolved_header report_columns kid = ''Provenance Code'')
        (findChildren (find_all ''Row'' report_doc ! 0)) =
       [cell ''Column2'' ''A'', cell ''Column3'' ''B'']
   \<and> filter (\<lambda>p. fst p = ''Provenance Code'')
        ([[(''Title'', ''Foo''), (''Provenance Code'', ''B''), (''Extra'', ''x'')]] ! 0) =
       [(''Provenance Code'', ''B'')]"
proof -
  have l: "(0::nat) < length (find_all ''Row'' report_doc)" by (simp add: report_doc_row)
  have s: "[cell ''Column2'' ''A'', cell ''Column3'' ''B''] =
           filter (\<lambda>kid. tag_name kid \<noteq> ''Column0''
                       \<and> resolved_header report_columns kid = ''Provenance Code'')
             (findChildren (find_all ''Row'' report_doc ! 0))"
    by (simp add: report_doc_row findChildren_def resolved_header_def report_columns_def cell_def)
  have n: "[cell ''Column2'' ''A'', cell ''Column3'' ''B''] \<noteq> []" by simp
  note th = last_child_wins[OF l s n]
  from th have g: "map (row_values report_columns) (find_all ''Row'' report_doc) =
                     [[(''Title'', ''Foo''), (''Provenance Code'', ''B''), (''Extra'', ''x'')]]"
    using report_doc_rows by simp
  from th have "filter (\<lambda>p. fst p = ''Provenance Code'')
          (map (row_values report_columns) (find_all ''Row'' report_doc) ! 0) =
        [(''Provenance Code'', get_text (last [cell ''Column2'' ''A'', cell ''Column3'' ''B'']))]"
    by blast
  then have "filter (\<lambda>p. fst p = ''Provenance Code'')
          ([[(''Title'', ''Foo''), (''Provenance Code'', ''B''), (''Extra'', ''x'')]] ! 0) =
        [(''Provenance Code'', ''B'')]"
    unfolding g by (simp add: cell_def)
  with report_doc_rows s show ?thesis by simp
qed

subsection \<open>A complete run\<close>

text \<open>The example deployment on the example report: 200, with the rows handed to \<open>json.dumps\<close>.\<close>

lemma example_success_rows:
  "success_json (find_first ''ResumptionToken'' report_doc)
     [[(''Title'', ''Foo''), (''Provenance Code'', ''B''), (''Extra'', ''x'')]] =
   JObj [(''status'', JStr ''success''),
         (''data'', JObj [(''resume'', JStr ''abc123''),
                          (''rows'', JArr [JObj [(''Title'', JStr ''Foo''),
                                                 (''Provenance Code'', JStr ''B''),
                                                 (''Extra'', JStr ''x'')]])])]"
  by (simp add: success_json_def find_first_def find_all_def matches_name_def report_doc_def column_decl_def
      cell_def)

lemma example_success_run:
  "snd (httpalmaanalytics (example_env report_doc) (example_request ''GW'' ''loans'')) =
     Inr \<lparr>body = ''{}'', status_code = 200, mimetype = ''application/json''\<rparr>"
proof -
  have "find_first ''error'' report_doc = None"
    by (simp add: find_first_def find_all_def matches_name_def report_doc_def column_decl_def cell_def)
  then have "get_soup (example_env report_doc) \<lparr>http_status = 200, content = []\<rparr> =
               ([SoupFind ''error''], Value report_doc)"
    using get_soup_no_error[of "example_env report_doc" "\<lparr>http_status = 200, content = []\<rparr>"]
    by (simp add: example_soup)
  then show ?thesis
    by (simp add: httpalmaanalytics_def example_set_payload example_make_api_call
        report_doc_columns report_doc_rows) (simp add: example_env_def)
qed

end
